theory Spec2Isabelle
  imports Main "HOL-Library.Word"
begin

section \<open>Errors\<close>

text \<open>
  A rejected promise or a thrown exception is a value on the left of a sum.
  \<open>Error msg\<close> is a JavaScript \<open>Error\<close> carrying the message \<open>msg\<close>, the
  only kind the repository's own code throws. The others are raised by what it calls:
  \<open>ArgumentError\<close> by the ethers utilities on a value that does not fit the
  Solidity type it is packed as, \<open>NumericFault\<close> by \<open>BigNumber.toNumber\<close> on a
  value outside the safe integers, \<open>AssertionError\<close>, \<open>EncodingError\<close> and
  \<open>FundingError\<close> by bcoin (a failed assertion, a raw transaction it cannot read,
  coins that do not cover outputs and fee), and \<open>TypeError\<close> by the language
  itself on reading a property of \<open>undefined\<close>.
\<close>

datatype error =
    Error string
  | ArgumentError
  | NumericFault
  | AssertionError
  | EncodingError
  | FundingError
  | TypeError

definition andThen :: "error + 'a \<Rightarrow> ('a \<Rightarrow> error + 'b) \<Rightarrow> error + 'b" where
  "andThen r f = (case r of Inl e \<Rightarrow> Inl e | Inr v \<Rightarrow> f v)"

section \<open>Bytes and hexadecimal strings\<close>

type_synonym byte = "8 word"

text \<open>The digest of the ledger's hash function (keccak256) is 32 bytes.\<close>

type_synonym digest = "256 word"

definition hexDigit :: "nat \<Rightarrow> char" where
  "hexDigit n = (if n < 10 then char_of (48 + n) else char_of (87 + n))"

definition hexValue :: "char \<Rightarrow> nat option" where
  "hexValue c =
     (let n = (of_char c :: nat) in
      if 48 \<le> n \<and> n \<le> 57 then Some (n - 48)
      else if 97 \<le> n \<and> n \<le> 102 then Some (n - 87)
      else if 65 \<le> n \<and> n \<le> 70 then Some (n - 55)
      else None)"

definition isHexChar :: "char \<Rightarrow> bool" where
  "isHexChar c = (case hexValue c of None \<Rightarrow> False | Some v \<Rightarrow> True)"

text \<open>\<open>buf.toString("hex")\<close>: two lower-case digits per byte.\<close>

definition byteToHex :: "byte \<Rightarrow> string" where
  "byteToHex b = [hexDigit (unat b div 16), hexDigit (unat b mod 16)]"

definition toStringHex :: "byte list \<Rightarrow> string" where
  "toStringHex bs = concat (map byteToHex bs)"

text \<open>
  \<open>Buffer.from(s, "hex")\<close>: pairs of digits are decoded from the left; decoding
  stops at the first pair that is not two hexadecimal digits, and a trailing single
  character is dropped.
\<close>

fun bufferFromHex :: "string \<Rightarrow> byte list" where
  "bufferFromHex (a # b # rest) =
     (case hexValue a of
        None \<Rightarrow> []
      | Some x \<Rightarrow>
          (case hexValue b of
             None \<Rightarrow> []
           | Some y \<Rightarrow> word_of_nat (16 * x + y) # bufferFromHex rest))"
| "bufferFromHex [a] = []"
| "bufferFromHex [] = []"

text \<open>An unsigned integer as \<open>n\<close> bytes, most significant byte first.\<close>

fun bigEndian :: "nat \<Rightarrow> nat \<Rightarrow> byte list" where
  "bigEndian 0 v = []"
| "bigEndian (Suc n) v = bigEndian n (v div 256) @ [word_of_nat (v mod 256)]"

definition digestBytes :: "digest \<Rightarrow> byte list" where
  "digestBytes d = bigEndian 32 (unat d)"

section \<open>The ethers utilities used by the key derivation\<close>

text \<open>
  \<open>isHexString\<close> is the pattern \<open>^0x[0-9A-Fa-f]*$\<close>; \<open>arrayify\<close> turns
  such a string of even length into its bytes and rejects every other string;
  \<open>hexlify\<close> is the way back.
\<close>

definition isHexString :: "string \<Rightarrow> bool" where
  "isHexString s = (take 2 s = ''0x'' \<and> list_all isHexChar (drop 2 s))"

definition arrayify :: "string \<Rightarrow> error + byte list" where
  "arrayify s =
     (if \<not> isHexString s then Inl ArgumentError
      else if odd (length s) then Inl ArgumentError
      else Inr (bufferFromHex (drop 2 s)))"

definition hexlify :: "byte list \<Rightarrow> string" where
  "hexlify bs = ''0x'' @ toStringHex bs"

text \<open>
  One argument of \<open>solidityPack\<close>, the Solidity type together with the value packed
  as that type: \<open>bytes\<close> takes a hex string of any length, \<open>bytesN\<close> a hex string of
  exactly \<open>N\<close> bytes, \<open>uintN\<close> a number that fits \<open>N\<close> bits and is padded to
  \<open>N / 8\<close> bytes, big-endian.
\<close>

datatype solidity_arg =
    SolBytes string
  | SolBytesN nat string
  | SolUint nat nat

fun pack :: "solidity_arg \<Rightarrow> error + byte list" where
  "pack (SolBytes s) = arrayify s"
| "pack (SolBytesN width s) =
     (if width = 0 \<or> 32 < width then Inl ArgumentError
      else andThen (arrayify s)
             (\<lambda>bs. if length bs = width then Inr bs else Inl ArgumentError))"
| "pack (SolUint width v) =
     (if width mod 8 \<noteq> 0 \<or> width = 0 \<or> 256 < width then Inl ArgumentError
      else if v < 2 ^ width then Inr (bigEndian (width div 8) v)
      else Inl ArgumentError)"

fun solidityPack :: "solidity_arg list \<Rightarrow> error + byte list" where
  "solidityPack [] = Inr []"
| "solidityPack (a # rest) =
     andThen (pack a) (\<lambda>bs. andThen (solidityPack rest) (\<lambda>tl. Inr (bs @ tl)))"

text \<open>
  \<open>utils.solidityKeccak256(types, values)\<close>. The hash function itself is a parameter
  of the model: nothing below depends on what keccak256 computes, only on what it is
  applied to.
\<close>

definition solidityKeccak256 ::
  "(byte list \<Rightarrow> digest) \<Rightarrow> solidity_arg list \<Rightarrow> error + string" where
  "solidityKeccak256 keccak256 args =
     andThen (solidityPack args) (\<lambda>bs. Inr (hexlify (digestBytes (keccak256 bs))))"

section \<open>Hex values\<close>

text \<open>
  Modelled from the spec: the \<open>Hex\<close> class of \<open>../utils\<close> (and \<open>BitcoinTxHash\<close>,
  which extends it) is not among the sources. A \<open>Hex\<close> is the byte string a
  hexadecimal string stands for, with or without the \<open>0x\<close> prefix; \<open>reverse\<close>
  reverses the byte order, \<open>toString\<close> and \<open>toPrefixedString\<close> write the bytes
  as an un-prefixed and as a \<open>0x\<close>-prefixed hexadecimal string.
\<close>

type_synonym Hex = "byte list"

definition Hex_from :: "string \<Rightarrow> Hex" where
  "Hex_from s = bufferFromHex (if take 2 s = ''0x'' \<or> take 2 s = ''0X'' then drop 2 s else s)"

definition Hex_reverse :: "Hex \<Rightarrow> Hex" where
  "Hex_reverse h = rev h"

definition Hex_toString :: "Hex \<Rightarrow> string" where
  "Hex_toString h = toStringHex h"

definition Hex_toPrefixedString :: "Hex \<Rightarrow> string" where
  "Hex_toPrefixedString h = ''0x'' @ toStringHex h"

section \<open>Key derivation (EthereumBridge)\<close>

text \<open>
  \<open>EthereumBridge.buildRedemptionKey\<close>. \<open>Buffer.from([n])\<close> keeps the low eight
  bits of \<open>n\<close>, which is what \<open>word_of_nat\<close> does on an 8-bit word.
\<close>

definition buildRedemptionKey ::
  "(byte list \<Rightarrow> digest) \<Rightarrow> string \<Rightarrow> string \<Rightarrow> error + string" where
  "buildRedemptionKey keccak256 walletPublicKeyHash redeemerOutputScript =
     (let rawRedeemerOutputScript = bufferFromHex redeemerOutputScript;
          prefixedRawRedeemerOutputScript =
            ''0x'' @ toStringHex
              (concat [[word_of_nat (length rawRedeemerOutputScript)],
                       rawRedeemerOutputScript])
      in andThen (solidityKeccak256 keccak256 [SolBytes prefixedRawRedeemerOutputScript])
           (\<lambda>scriptHash.
              solidityKeccak256 keccak256
                [SolBytesN 32 scriptHash, SolBytesN 20 (''0x'' @ walletPublicKeyHash)]))"

text \<open>\<open>EthereumBridge.buildDepositKey\<close>.\<close>

definition buildDepositKey ::
  "(byte list \<Rightarrow> digest) \<Rightarrow> Hex \<Rightarrow> nat \<Rightarrow> error + string" where
  "buildDepositKey keccak256 depositTxHash depositOutputIndex =
     (let prefixedReversedDepositTxHash =
            Hex_toPrefixedString (Hex_reverse depositTxHash)
      in solidityKeccak256 keccak256
           [SolBytesN 32 prefixedReversedDepositTxHash, SolUint 32 depositOutputIndex])"

text \<open>\<open>BitcoinUtxo\<close> and \<open>EthereumBridge.buildUtxoHash\<close>.\<close>

record BitcoinUtxo =
  transactionHash :: Hex
  outputIndex :: nat
  "value" :: nat

definition buildUtxoHash :: "(byte list \<Rightarrow> digest) \<Rightarrow> BitcoinUtxo \<Rightarrow> error + Hex" where
  "buildUtxoHash keccak256 utxo =
     andThen
       (solidityKeccak256 keccak256
          [SolBytesN 32 (Hex_toPrefixedString (Hex_reverse (transactionHash utxo))),
           SolUint 32 (outputIndex utxo),
           SolUint 64 (value utxo)])
       (\<lambda>h. Inr (Hex_from h))"

text \<open>
  The key derivation in the spec's words, on bytes, for comparison with the functions
  above. \<open>redemptionKey\<close>: the script prefixed with one byte equal to its length is
  hashed, and the digest followed by the wallet public key hash is hashed again; there
  is no key for a script longer than 255 bytes. \<open>depositKey\<close>: the hash of the
  reversed transaction hash followed by the output index as 4 bytes, big-endian.
  \<open>utxoHash\<close>: the hash of the reversed transaction hash, the 4-byte output index
  and the 8-byte value.
\<close>

definition redemptionKey ::
  "(byte list \<Rightarrow> digest) \<Rightarrow> byte list \<Rightarrow> byte list \<Rightarrow> digest option" where
  "redemptionKey hash walletPublicKeyHash redeemerOutputScript =
     (if 255 < length redeemerOutputScript then None
      else Some (hash (digestBytes
                         (hash (word_of_nat (length redeemerOutputScript)
                                  # redeemerOutputScript))
                       @ walletPublicKeyHash)))"

definition depositKey :: "(byte list \<Rightarrow> digest) \<Rightarrow> byte list \<Rightarrow> nat \<Rightarrow> digest" where
  "depositKey hash depositTxHash depositOutputIndex =
     hash (rev depositTxHash @ bigEndian 4 depositOutputIndex)"

definition utxoHash :: "(byte list \<Rightarrow> digest) \<Rightarrow> BitcoinUtxo \<Rightarrow> digest" where
  "utxoHash hash utxo =
     hash (rev (transactionHash utxo) @ bigEndian 4 (outputIndex utxo)
             @ bigEndian 8 (value utxo))"

text \<open>The number a byte string stands for when read most significant byte first.\<close>

definition bigEndianValue :: "byte list \<Rightarrow> nat" where
  "bigEndianValue bs = foldl (\<lambda>acc b. 256 * acc + unat b) 0 bs"

text \<open>
  A stand-in for keccak256 in closed examples (a polynomial checksum). The theorems
  hold for every hash function; the examples need one that can be written down.
\<close>

definition sampleHash :: "byte list \<Rightarrow> digest" where
  "sampleHash bs = foldl (\<lambda>h b. 31 * h + ucast b) 7 bs"

section \<open>JavaScript numbers\<close>

text \<open>
  A JavaScript number that holds an integer is modelled by that integer. A sum or a
  difference of two numbers is the exact result rounded to the nearest double, ties to
  the even significand: exact while the result stays within \<open>2 ^ 53\<close> in absolute
  value, a multiple of a power of two beyond. (Fractions, \<open>NaN\<close> and the infinities
  are outside the model; the numbers below come from \<open>toNumber\<close>, from the caller's
  UTXO and from sums of these.)
\<close>

definition MAX_SAFE_INTEGER :: int where
  "MAX_SAFE_INTEGER = 2 ^ 53 - 1"

definition isSafeInteger :: "int \<Rightarrow> bool" where
  "isSafeInteger n = (- MAX_SAFE_INTEGER \<le> n \<and> n \<le> MAX_SAFE_INTEGER)"

fun bitLength :: "nat \<Rightarrow> nat" where
  "bitLength n = (if n = 0 then 0 else Suc (bitLength (n div 2)))"

definition roundDouble :: "int \<Rightarrow> int" where
  "roundDouble s =
     (if \<bar>s\<bar> \<le> 2 ^ 53 then s
      else
        let m = nat \<bar>s\<bar>;
            k = bitLength m - 53;
            q = m div 2 ^ k;
            r = m mod 2 ^ k;
            rounded = (if 2 ^ k < 2 * r \<or> (2 * r = 2 ^ k \<and> odd q) then q + 1 else q)
        in sgn s * int (rounded * 2 ^ k))"

definition jsAdd :: "int \<Rightarrow> int \<Rightarrow> int" where
  "jsAdd a b = roundDouble (a + b)"

definition jsSub :: "int \<Rightarrow> int \<Rightarrow> int" where
  "jsSub a b = roundDouble (a - b)"

text \<open>
  \<open>BigNumber.toNumber()\<close>: an ethers \<open>BigNumber\<close> is an \<open>int\<close>; the conversion
  fails on a value of more than 53 bits.
\<close>

definition toNumber :: "int \<Rightarrow> error + int" where
  "toNumber v = (if isSafeInteger v then Inr v else Inl NumericFault)"

section \<open>Redemptions\<close>

text \<open>The amounts of a request are ethers \<open>BigNumber\<close>s.\<close>

record RedemptionRequest =
  redeemer :: string
  redeemerOutputScript :: string
  requestedAmount :: int
  treasuryFee :: int
  txMaxFee :: int
  requestedAt :: int

text \<open>The main UTXO together with the raw transaction it belongs to.\<close>

record UnspentTransactionOutput =
  transactionHash :: string
  outputIndex :: nat
  "value" :: int
  transactionHex :: string

text \<open>What the redemption code calls of the Bridge handle it is given.\<close>

record Bridge =
  pendingRedemptions :: "string \<Rightarrow> string \<Rightarrow> error + RedemptionRequest"

text \<open>
  Key handling and script assembly belong to the bcoin and bcrypto libraries and to
  \<open>createKeyRing\<close> of \<open>./bitcoin\<close>, none of which is among the sources. A key ring
  is the private key and the witness flag it was created from; what the libraries
  derive from it (public key, address, hash160) is a parameter of the model.
\<close>

datatype KeyRing = KeyRing string "bool option"

definition createKeyRing :: "string \<Rightarrow> bool option \<Rightarrow> KeyRing" where
  "createKeyRing privateKey witness = KeyRing privateKey witness"

text \<open>Coins, scripts and outputs as bcoin holds them.\<close>

record Coin =
  fromTX :: string
  index :: nat
  height :: int
  "value" :: int

datatype Script = ScriptFromRaw "byte list" | ScriptFromAddress string

record TxOutput =
  script :: Script
  "value" :: int

text \<open>
  The library as far as the model does not compute it: the key derivation; the value
  of the output that \<open>Coin.fromTX(MTX.fromRaw(hex), index)\<close> reads from a raw
  transaction (\<open>None\<close> where it cannot); the largest fee the coin selector pays
  (\<open>CoinSelector.MAX_FEE\<close>); the dust policy (\<open>output.isDust(policy.MIN_RELAY)\<close>);
  and the selector's choice of coins and fee when it is given no hard fee.
\<close>

record Bcoin =
  getPublicKey :: "KeyRing \<Rightarrow> byte list"
  getAddress :: "KeyRing \<Rightarrow> string"
  hash160 :: "byte list \<Rightarrow> byte list"
  rawOutputValue :: "string \<Rightarrow> nat \<Rightarrow> int option"
  MAX_FEE :: int
  isDust :: "TxOutput \<Rightarrow> bool"
  selectEstimate :: "TxOutput list \<Rightarrow> Coin list \<Rightarrow> Coin list \<times> int"

text \<open>
  The loop of \<open>fetchRedemptionRequests\<close>, with the list it pushes to, and the
  function itself.
\<close>

fun fetchLoop ::
  "Bridge \<Rightarrow> string \<Rightarrow> string list \<Rightarrow> RedemptionRequest list
     \<Rightarrow> error + RedemptionRequest list" where
  "fetchLoop bridge walletPubKeyHash [] redemptionRequests = Inr redemptionRequests"
| "fetchLoop bridge walletPubKeyHash (outputScript # rest) redemptionRequests =
     andThen (pendingRedemptions bridge walletPubKeyHash outputScript)
       (\<lambda>pendingRedemption.
          if requestedAt pendingRedemption = 0
          then Inl (Error (''Provided redeemer output script and wallet public key ''
                           @ ''do not identify a pending redemption''))
          else fetchLoop bridge walletPubKeyHash rest
                 (redemptionRequests
                    @ [pendingRedemption\<lparr>redeemerOutputScript := outputScript\<rparr>]))"

definition fetchRedemptionRequests ::
  "Bcoin \<Rightarrow> Bridge \<Rightarrow> string \<Rightarrow> string list \<Rightarrow> error + RedemptionRequest list" where
  "fetchRedemptionRequests bcoin bridge walletPrivateKey redeemerOutputScripts =
     (let walletKeyRing = createKeyRing walletPrivateKey None;
          walletPublicKey = toStringHex (getPublicKey bcoin walletKeyRing);
          walletPubKeyHash = toStringHex (hash160 bcoin (bufferFromHex walletPublicKey))
      in fetchLoop bridge walletPubKeyHash redeemerOutputScripts [])"

subsection \<open>The bcoin transaction builder\<close>

text \<open>
  \<open>Coin.fromTX(MTX.fromRaw(hex, "hex"), index, -1)\<close>: the coin of that output, at
  height \<open>-1\<close>.
\<close>

definition coinFromTX :: "Bcoin \<Rightarrow> string \<Rightarrow> nat \<Rightarrow> error + Coin" where
  "coinFromTX bcoin hex i =
     (case rawOutputValue bcoin hex i of
        None \<Rightarrow> Inl EncodingError
      | Some v \<Rightarrow> Inr \<lparr>fromTX = hex, index = i, height = - 1, Coin.value = v\<rparr>)"

text \<open>
  \<open>transaction.addOutput({script, value})\<close>: a value other than 0 must be a safe
  integer and not negative (\<open>Value must be a uint64\<close>).
\<close>

definition addOutput :: "TxOutput list \<Rightarrow> TxOutput \<Rightarrow> error + TxOutput list" where
  "addOutput transactionOutputs out =
     (if value out \<noteq> 0 \<and> \<not> (isSafeInteger (value out) \<and> 0 \<le> value out)
      then Inl AssertionError
      else Inr (transactionOutputs @ [out]))"

text \<open>\<open>getInputValue\<close> and \<open>getOutputValue\<close> add up numbers.\<close>

definition inputValue :: "Coin list \<Rightarrow> int" where
  "inputValue coins = foldl jsAdd 0 (map Coin.value coins)"

definition outputValue :: "TxOutput list \<Rightarrow> int" where
  "outputValue transactionOutputs = foldl jsAdd 0 (map TxOutput.value transactionOutputs)"

record FundOptions =
  changeAddress :: string
  hardFee :: int
  subtractFee :: bool

text \<open>
  The coin selector with a hard fee adds coins, in the order it is given them (its own
  ordering of several coins is not modelled: the builder passes one), until the inputs
  cover outputs and fee.
\<close>

fun selectLoop :: "int \<Rightarrow> Coin list \<Rightarrow> Coin list \<Rightarrow> Coin list" where
  "selectLoop needed [] chosen = chosen"
| "selectLoop needed (coin # coins) chosen =
     (if needed \<le> inputValue chosen then chosen
      else selectLoop needed coins (chosen @ [coin]))"

text \<open>
  \<open>transaction.fund(coins, options)\<close> without fee subtraction, which is how the
  builder calls it. The hard fee must be a safe integer, at least \<open>-1\<close>, and
  \<open>-1\<close> stands for no hard fee; a hard fee is paid up to \<open>MAX_FEE\<close>. Funding fails
  when the chosen coins do not cover outputs and fee. What the inputs hold beyond
  outputs and fee goes to a further output to the change address, unless that output
  would be dust, in which case it is left to the fee. The result is the inputs and the
  outputs of the funded transaction.
\<close>

definition fund ::
  "Bcoin \<Rightarrow> TxOutput list \<Rightarrow> Coin list \<Rightarrow> FundOptions
     \<Rightarrow> error + Coin list \<times> TxOutput list" where
  "fund bcoin transactionOutputs coins options =
     (if \<not> (isSafeInteger (hardFee options) \<and> - 1 \<le> hardFee options)
      then Inl AssertionError
      else
        let (chosen, fee) =
              (if hardFee options = - 1 then selectEstimate bcoin transactionOutputs coins
               else
                 let fee = min (hardFee options) (MAX_FEE bcoin)
                 in (selectLoop (jsAdd (outputValue transactionOutputs) fee) coins [], fee));
            needed = jsAdd (outputValue transactionOutputs) fee
        in if inputValue chosen < needed then Inl FundingError
           else
             let change =
                   \<lparr>script = ScriptFromAddress (changeAddress options),
                    value = jsSub (inputValue chosen) needed\<rparr>
             in Inr (chosen,
                     if isDust bcoin change then transactionOutputs
                     else transactionOutputs @ [change]))"

text \<open>
  The transaction \<open>createRedemptionTransaction\<close> returns, before bcoin serialises it:
  its inputs, its outputs and the key ring it was signed with. \<open>getFee\<close> is what the
  inputs hold beyond the outputs.
\<close>

record Transaction =
  inputs :: "Coin list"
  outputs :: "TxOutput list"
  signedWith :: KeyRing

definition getFee :: "Transaction \<Rightarrow> int" where
  "getFee transaction = jsSub (inputValue (inputs transaction)) (outputValue (outputs transaction))"

subsection \<open>Building the transaction\<close>

text \<open>
  The loop over the requests: the outputs added so far, \<open>txTotalFee\<close> and
  \<open>totalOutputsValue\<close>. Each \<open>toNumber\<close> and each \<open>addOutput\<close> may fail, in the
  order the source calls them.
\<close>

fun processRequests ::
  "RedemptionRequest list \<Rightarrow> TxOutput list \<times> int \<times> int
     \<Rightarrow> error + TxOutput list \<times> int \<times> int" where
  "processRequests [] (added, txTotalFee, totalOutputsValue) =
     Inr (added, txTotalFee, totalOutputsValue)"
| "processRequests (request # rest) (added, txTotalFee, totalOutputsValue) =
     (let outputValue = requestedAmount request - txMaxFee request - treasuryFee request
      in andThen (toNumber outputValue)
           (\<lambda>addend.
              andThen (toNumber (txMaxFee request))
                (\<lambda>fee.
                   andThen (toNumber outputValue)
                     (\<lambda>v.
                        andThen
                          (addOutput added
                             \<lparr>script =
                                ScriptFromRaw (bufferFromHex (redeemerOutputScript request)),
                              value = v\<rparr>)
                          (\<lambda>added'.
                             processRequests rest
                               (added', jsAdd txTotalFee fee,
                                jsAdd totalOutputsValue addend))))))"

definition createRedemptionTransaction ::
  "Bcoin \<Rightarrow> string \<Rightarrow> UnspentTransactionOutput \<Rightarrow> RedemptionRequest list \<Rightarrow> bool
     \<Rightarrow> error + Transaction" where
  "createRedemptionTransaction bcoin walletPrivateKey mainUtxo redemptionRequests witness =
     (if length redemptionRequests < 1
      then Inl (Error ''There must be at least one request to redeem'')
      else
        let walletKeyRing = createKeyRing walletPrivateKey (Some witness);
            walletAddress = getAddress bcoin walletKeyRing
        in andThen
             (coinFromTX bcoin (transactionHex mainUtxo)
                (UnspentTransactionOutput.outputIndex mainUtxo))
             (\<lambda>coin.
                let inputCoins = [coin]
                in andThen (processRequests redemptionRequests ([], 0, 0))
                     (\<lambda>(added, txTotalFee, totalOutputsValue).
                        let changeOutputValue =
                              jsSub
                                (jsSub (UnspentTransactionOutput.value mainUtxo)
                                   totalOutputsValue)
                                txTotalFee
                        in andThen
                             (if changeOutputValue > 0
                              then addOutput added
                                     \<lparr>script = ScriptFromAddress walletAddress,
                                      value = changeOutputValue\<rparr>
                              else Inr added)
                             (\<lambda>transactionOutputs.
                                andThen
                                  (fund bcoin transactionOutputs inputCoins
                                     \<lparr>changeAddress = walletAddress,
                                      hardFee = txTotalFee,
                                      subtractFee = False\<rparr>)
                                  (\<lambda>(chosen, funded).
                                     Inr \<lparr>inputs = chosen,
                                          outputs = funded,
                                          signedWith = walletKeyRing\<rparr>)))))"


definition NotFound :: error where
  "NotFound =
     Error (''Provided redeemer output script and wallet public key ''
            @ ''do not identify a pending redemption'')"

section \<open>Retry and backoff\<close>

text \<open>
  Modelled from the spec: \<open>backoffRetrier\<close> of \<open>../utils\<close> and
  \<open>EthersTransactionUtils.sendWithRetry\<close> of \<open>./adapter\<close> are not among the
  sources. The wrapper invokes the wrapped operation; on a failure it waits and retries
  up to the configured number of attempts; on exhausting the attempts it surfaces the
  last error. The variant for mutating operations takes a list of expected error
  substrings: a failure whose message contains one of them ends the call at once, and
  the call counts as successfully completed.

  An operation that talks to the remote ledger is a function of the attempt number
  (from 0): its value there is how that invocation ends. The delays between attempts
  are not part of the model. The operation is invoked at least once, so a limit of
  zero attempts behaves as a limit of one.
\<close>

fun retryLoop :: "(nat \<Rightarrow> error + 'a) \<Rightarrow> nat \<Rightarrow> nat \<Rightarrow> error + 'a" where
  "retryLoop fn attempt 0 = fn attempt"
| "retryLoop fn attempt (Suc remaining) =
     (case fn attempt of
        Inr v \<Rightarrow> Inr v
      | Inl e \<Rightarrow> retryLoop fn (Suc attempt) remaining)"

definition backoffRetrier :: "nat \<Rightarrow> (nat \<Rightarrow> error + 'a) \<Rightarrow> error + 'a" where
  "backoffRetrier retries fn = retryLoop fn 0 (retries - 1)"

text \<open>\<open>msg.includes(sub)\<close>.\<close>

fun string_includes :: "string \<Rightarrow> string \<Rightarrow> bool" where
  "string_includes [] sub = (sub = [])"
| "string_includes (c # cs) sub =
     (take (length sub) (c # cs) = sub \<or> string_includes cs sub)"

definition isExpected :: "string list \<Rightarrow> error \<Rightarrow> bool" where
  "isExpected expected e =
     (case e of Error msg \<Rightarrow> list_ex (string_includes msg) expected | _ \<Rightarrow> False)"

text \<open>
  How a mutating call ends when it does not fail: the operation returned a value, or
  it was rejected with an expected message because its effect is already in place.
\<close>

datatype 'a completion = Completed 'a | AlreadyDone

text \<open>The loop returns the outcome and the number of invocations it has made.\<close>

fun sendLoop ::
  "(nat \<Rightarrow> error + 'a) \<Rightarrow> string list \<Rightarrow> nat \<Rightarrow> nat \<Rightarrow> (error + 'a completion) \<times> nat" where
  "sendLoop fn expected attempt 0 =
     (case fn attempt of
        Inr v \<Rightarrow> (Inr (Completed v), Suc attempt)
      | Inl e \<Rightarrow>
          if isExpected expected e then (Inr AlreadyDone, Suc attempt)
          else (Inl e, Suc attempt))"
| "sendLoop fn expected attempt (Suc remaining) =
     (case fn attempt of
        Inr v \<Rightarrow> (Inr (Completed v), Suc attempt)
      | Inl e \<Rightarrow>
          if isExpected expected e then (Inr AlreadyDone, Suc attempt)
          else sendLoop fn expected (Suc attempt) remaining)"

definition sendWithRetry ::
  "(nat \<Rightarrow> error + 'a) \<Rightarrow> nat \<Rightarrow> string list \<Rightarrow> (error + 'a completion) \<times> nat" where
  "sendWithRetry fn retries expected = sendLoop fn expected 0 (retries - 1)"

section \<open>The Ethereum Bridge handle\<close>

record BitcoinRawTxVectors =
  version :: string
  inputs :: string
  outputs :: string
  locktime :: string

record ChainIdentifier =
  identifierHex :: string

text \<open>The two arguments of the contract's \<open>revealDeposit\<close>.\<close>

record DepositTxParam =
  version :: string
  inputVector :: string
  outputVector :: string
  locktime :: string

record RevealParam =
  fundingOutputIndex :: nat
  blindingFactor :: string
  walletPubKeyHash :: string
  refundPubKeyHash :: string
  refundLocktime :: string
  vault :: string

record ContractTransaction =
  hash :: string

text \<open>The wallet as the contract returns it and as \<open>parseWalletDetails\<close> hands it on.\<close>

record WalletStructOutput =
  ecdsaWalletID :: string
  mainUtxoHash :: string
  pendingRedemptionsValue :: nat
  createdAt :: nat
  movingFundsRequestedAt :: nat
  closingStartedAt :: nat
  pendingMovedFundsSweepRequestsCount :: nat
  state :: nat
  movingFundsTargetWalletsCommitmentHash :: string

record 'ws Wallet =
  ecdsaWalletID :: Hex
  walletPublicKey :: Hex
  mainUtxoHash :: Hex
  pendingRedemptionsValue :: nat
  createdAt :: nat
  movingFundsRequestedAt :: nat
  closingStartedAt :: nat
  pendingMovedFundsSweepRequestsCount :: nat
  state :: 'ws
  movingFundsTargetWalletsCommitmentHash :: Hex

text \<open>
  The handle: its retry limit, the calls of the contract instance it wraps (each a
  function of the attempt number), and the collaborators whose code is not among the
  sources, taken as parameters: the wallet registry's \<open>getWalletPublicKey\<close> (by the
  registry's address), \<open>BitcoinPublicKeyUtils.compressPublicKey\<close> and
  \<open>WalletState.parse\<close>.
\<close>

record 'ws EthereumBridge =
  totalRetryAttempts :: nat
  instance_revealDeposit :: "DepositTxParam \<Rightarrow> RevealParam \<Rightarrow> nat \<Rightarrow> error + ContractTransaction"
  instance_activeWalletPubKeyHash :: "nat \<Rightarrow> error + string"
  instance_wallets :: "string \<Rightarrow> nat \<Rightarrow> error + WalletStructOutput"
  instance_contractReferences :: "nat \<Rightarrow> error + string"
  registry_getWalletPublicKey :: "string \<Rightarrow> Hex \<Rightarrow> error + Hex"
  compressPublicKey :: "Hex \<Rightarrow> error + string"
  WalletState_parse :: "nat \<Rightarrow> error + 'ws"

definition AddressZero :: string where
  "AddressZero = ''0x0000000000000000000000000000000000000000''"

text \<open>\<open>walletRegistry\<close>: the registry handle is identified by its address.\<close>

definition walletRegistry :: "'ws EthereumBridge \<Rightarrow> error + string" where
  "walletRegistry bridge =
     andThen (backoffRetrier (totalRetryAttempts bridge) (instance_contractReferences bridge))
       (\<lambda>ecdsaWalletRegistry. Inr ecdsaWalletRegistry)"

definition getWalletCompressedPublicKey :: "'ws EthereumBridge \<Rightarrow> Hex \<Rightarrow> error + Hex" where
  "getWalletCompressedPublicKey bridge =
     (\<lambda>ecdsaWalletID.
        andThen (walletRegistry bridge)
          (\<lambda>registry. andThen (registry_getWalletPublicKey bridge registry ecdsaWalletID)
             (\<lambda>uncompressedPublicKey.
                andThen (compressPublicKey bridge uncompressedPublicKey)
                  (\<lambda>compressed. Inr (Hex_from compressed)))))"

definition parseWalletDetails ::
  "'ws EthereumBridge \<Rightarrow> WalletStructOutput \<Rightarrow> error + 'ws Wallet" where
  "parseWalletDetails bridge wallet =
     (let ecdsaWalletID = Hex_from (WalletStructOutput.ecdsaWalletID wallet)
      in andThen (getWalletCompressedPublicKey bridge ecdsaWalletID)
           (\<lambda>publicKey. andThen (WalletState_parse bridge (WalletStructOutput.state wallet))
              (\<lambda>parsedState.
                 Inr \<lparr>ecdsaWalletID = ecdsaWalletID,
                      walletPublicKey = publicKey,
                      mainUtxoHash = Hex_from (WalletStructOutput.mainUtxoHash wallet),
                      pendingRedemptionsValue =
                        WalletStructOutput.pendingRedemptionsValue wallet,
                      createdAt = WalletStructOutput.createdAt wallet,
                      movingFundsRequestedAt =
                        WalletStructOutput.movingFundsRequestedAt wallet,
                      closingStartedAt = WalletStructOutput.closingStartedAt wallet,
                      pendingMovedFundsSweepRequestsCount =
                        WalletStructOutput.pendingMovedFundsSweepRequestsCount wallet,
                      state = parsedState,
                      movingFundsTargetWalletsCommitmentHash =
                        Hex_from
                          (WalletStructOutput.movingFundsTargetWalletsCommitmentHash
                             wallet)\<rparr>)))"

definition wallets :: "'ws EthereumBridge \<Rightarrow> Hex \<Rightarrow> error + 'ws Wallet" where
  "wallets bridge walletPublicKeyHash =
     andThen
       (backoffRetrier (totalRetryAttempts bridge)
          (instance_wallets bridge (Hex_toPrefixedString walletPublicKeyHash)))
       (parseWalletDetails bridge)"

text \<open>\<open>EthereumBridge.activeWalletPublicKey\<close>; \<open>undefined\<close> is \<open>None\<close>.\<close>

definition activeWalletPublicKey :: "'ws EthereumBridge \<Rightarrow> error + string option" where
  "activeWalletPublicKey bridge =
     andThen
       (backoffRetrier (totalRetryAttempts bridge) (instance_activeWalletPubKeyHash bridge))
       (\<lambda>activeWalletPublicKeyHash.
          if activeWalletPublicKeyHash = ''0x0000000000000000000000000000000000000000''
          then Inr None
          else andThen (wallets bridge (Hex_from activeWalletPublicKeyHash))
                 (\<lambda>wallet. Inr (Some (Hex_toString (walletPublicKey wallet)))))"

text \<open>The fields of a deposit receipt that \<open>revealDeposit\<close> reads.\<close>

record DepositReceipt =
  blindingFactor :: string
  walletPublicKeyHash :: string
  refundPublicKeyHash :: string
  refundLocktime :: string

text \<open>
  \<open>EthereumBridge.revealDeposit\<close>, together with the number of times the contract
  was called. The source returns \<open>tx.hash\<close> of whatever \<open>sendWithRetry\<close>
  resolves to: a call that was completed without a transaction has none to read the
  hash of, and the read raises a \<open>TypeError\<close>.
\<close>

definition revealDeposit ::
  "'ws EthereumBridge \<Rightarrow> BitcoinRawTxVectors \<Rightarrow> nat \<Rightarrow> DepositReceipt \<Rightarrow> ChainIdentifier option
     \<Rightarrow> (error + string) \<times> nat" where
  "revealDeposit bridge depositTx depositOutputIndex deposit =
     (\<lambda>vault.
      let depositTxParam =
            \<lparr>DepositTxParam.version = ''0x'' @ BitcoinRawTxVectors.version depositTx,
             inputVector = ''0x'' @ inputs depositTx,
             outputVector = ''0x'' @ outputs depositTx,
             DepositTxParam.locktime = ''0x'' @ BitcoinRawTxVectors.locktime depositTx\<rparr>;
          revealParam =
            \<lparr>fundingOutputIndex = depositOutputIndex,
             RevealParam.blindingFactor = ''0x'' @ DepositReceipt.blindingFactor deposit,
             walletPubKeyHash = ''0x'' @ walletPublicKeyHash deposit,
             refundPubKeyHash = ''0x'' @ refundPublicKeyHash deposit,
             RevealParam.refundLocktime = ''0x'' @ DepositReceipt.refundLocktime deposit,
             vault = (case vault of
                        Some v \<Rightarrow> ''0x'' @ identifierHex v
                      | None \<Rightarrow> AddressZero)\<rparr>;
          sent = sendWithRetry (instance_revealDeposit bridge depositTxParam revealParam)
                   (totalRetryAttempts bridge) [''Deposit already revealed'']
      in (case fst sent of
            Inl e \<Rightarrow> Inl e
          | Inr (Completed tx) \<Rightarrow> Inr (hash tx)
          | Inr AlreadyDone \<Rightarrow> Inl TypeError,
          snd sent))"

section \<open>Sample data\<close>

text \<open>
  Concrete collaborators for the closed examples further down: a library for which
  every output of the raw transaction \<open>0100\<close> holds 100000 satoshis, a Bridge
  on which every output script but \<open>0014cc\<close> has a pending redemption (whose record
  carries another script, \<open>ffff\<close>), and an Ethereum Bridge handle with a limit of
  three attempts, given by how its \<open>revealDeposit\<close> and \<open>activeWalletPubKeyHash\<close>
  calls end at each attempt.
\<close>

definition sampleBcoin :: Bcoin where
  "sampleBcoin =
     \<lparr>getPublicKey = (\<lambda>keyRing. [2, 3]),
      getAddress = (\<lambda>keyRing. ''wallet''),
      hash160 = (\<lambda>bytes. bytes),
      rawOutputValue = (\<lambda>hex i. if hex = ''0100'' then Some 100000 else None),
      MAX_FEE = 10000000,
      isDust = (\<lambda>out. value out < 546),
      selectEstimate = (\<lambda>transactionOutputs coins. (coins, 10000))\<rparr>"

definition sampleLedger :: Bridge where
  "sampleLedger =
     \<lparr>pendingRedemptions =
        (\<lambda>walletHash outputScript.
           Inr \<lparr>redeemer = ''a1'', redeemerOutputScript = ''ffff'',
                requestedAmount = 50000, treasuryFee = 100, txMaxFee = 400,
                requestedAt = (if outputScript = ''0014cc'' then 0 else 1650000000)\<rparr>)\<rparr>"

definition sampleWallet :: WalletStructOutput where
  "sampleWallet =
     \<lparr>WalletStructOutput.ecdsaWalletID =
        ''0x4ad6b3ccbca81645865d8d0d575797a15528e98ced22f29a6f906d3259569863'',
      WalletStructOutput.mainUtxoHash = ''0x00'',
      WalletStructOutput.pendingRedemptionsValue = 0,
      WalletStructOutput.createdAt = 1650000000,
      WalletStructOutput.movingFundsRequestedAt = 0,
      WalletStructOutput.closingStartedAt = 0,
      WalletStructOutput.pendingMovedFundsSweepRequestsCount = 0,
      WalletStructOutput.state = 1,
      WalletStructOutput.movingFundsTargetWalletsCommitmentHash = ''0x00''\<rparr>"

definition sampleBridge ::
  "(nat \<Rightarrow> error + ContractTransaction) \<Rightarrow> (nat \<Rightarrow> error + string) \<Rightarrow> nat EthereumBridge" where
  "sampleBridge reveal active =
     \<lparr>totalRetryAttempts = 3,
      instance_revealDeposit = (\<lambda>depositTxParam revealParam. reveal),
      instance_activeWalletPubKeyHash = active,
      instance_wallets =
        (\<lambda>walletHash attempt.
           if walletHash = ''0x8db50eb52063ea9d98b3eac91489a90f738986f6''
           then Inr sampleWallet
           else Inl (Error ''no such wallet'')),
      instance_contractReferences = (\<lambda>attempt. Inr ''0xregistry''),
      registry_getWalletPublicKey = (\<lambda>registry walletID. Inr (4 # walletID)),
      compressPublicKey = (\<lambda>publicKey. Inr (toStringHex (2 # take 2 (tl publicKey)))),
      WalletState_parse = (\<lambda>n. Inr n)\<rparr>"

definition sampleRawTx :: BitcoinRawTxVectors where
  "sampleRawTx =
     \<lparr>BitcoinRawTxVectors.version = ''01000000'', inputs = ''01aa'', outputs = ''01bb'',
      BitcoinRawTxVectors.locktime = ''00000000''\<rparr>"

definition sampleReceipt :: DepositReceipt where
  "sampleReceipt =
     \<lparr>DepositReceipt.blindingFactor = ''f9f0c90d00039523'',
      walletPublicKeyHash = ''8db50eb52063ea9d98b3eac91489a90f738986f6'',
      refundPublicKeyHash = ''28e081f285138ccbe389c1eb8985716230129f89'',
      DepositReceipt.refundLocktime = ''60bcea61''\<rparr>"

section \<open>Hexadecimal round trips and packing\<close>

lemma length_bigEndian: "length (bigEndian n v) = n"
  by (induction n arbitrary: v) simp_all

lemma hexValue_hexDigit: "n < 16 \<Longrightarrow> hexValue (hexDigit n) = Some n"
  by (auto simp: hexValue_def hexDigit_def Let_def)

lemma bufferFromHex_byteToHex:
  "bufferFromHex (byteToHex b @ rest) = b # bufferFromHex rest"
proof -
  have "unat b < 2 ^ LENGTH(8)" by (rule unsigned_less)
  then have d: "unat b div 16 < 16" by simp
  have m: "unat b mod 16 < 16" by simp
  show ?thesis
    by (simp add: byteToHex_def hexValue_hexDigit [OF d] hexValue_hexDigit [OF m])
qed

lemma bufferFromHex_toStringHex: "bufferFromHex (toStringHex bs) = bs"
  by (induction bs) (simp_all add: toStringHex_def bufferFromHex_byteToHex)

lemma isHexChar_hexDigit: "n < 16 \<Longrightarrow> isHexChar (hexDigit n)"
  by (simp add: isHexChar_def hexValue_hexDigit)

lemma list_all_isHexChar_toStringHex: "list_all isHexChar (toStringHex bs)"
proof (induction bs)
  case Nil
  show ?case by (simp add: toStringHex_def)
next
  case (Cons b bs)
  have "unat b < 2 ^ LENGTH(8)" by (rule unsigned_less)
  then have d: "unat b div 16 < 16" by simp
  have m: "unat b mod 16 < 16" by simp
  from Cons show ?case
    by (simp add: toStringHex_def byteToHex_def isHexChar_hexDigit [OF d] isHexChar_hexDigit [OF m])
qed

lemma length_toStringHex: "length (toStringHex bs) = 2 * length bs"
  by (induction bs) (simp_all add: toStringHex_def byteToHex_def)

lemma arrayify_prefixed:
  "list_all isHexChar w \<Longrightarrow> even (length w) \<Longrightarrow> arrayify (CHR ''0'' # CHR ''x'' # w) = Inr (bufferFromHex w)"
  by (simp add: arrayify_def isHexString_def)

lemma arrayify_toStringHex: "arrayify (CHR ''0'' # CHR ''x'' # toStringHex bs) = Inr bs"
  by (simp add: arrayify_prefixed list_all_isHexChar_toStringHex length_toStringHex
      bufferFromHex_toStringHex)

lemma length_bufferFromHex:
  "list_all isHexChar w \<Longrightarrow> length (bufferFromHex w) = length w div 2"
  by (induction w rule: bufferFromHex.induct) (auto simp: isHexChar_def split: option.splits)

lemma length_digestBytes: "length (digestBytes d) = 32"
  by (simp add: digestBytes_def length_bigEndian)

lemma Hex_from_prefixed: "Hex_from (CHR ''0'' # CHR ''x'' # toStringHex bs) = bs"
  by (simp add: Hex_from_def bufferFromHex_toStringHex)

lemma pack_bytes_toStringHex: "pack (SolBytes (CHR ''0'' # CHR ''x'' # toStringHex bs)) = Inr bs"
  by (simp add: arrayify_toStringHex)

lemma pack_bytes32_toStringHex:
  "length bs = 32 \<Longrightarrow> pack (SolBytesN 32 (CHR ''0'' # CHR ''x'' # toStringHex bs)) = Inr bs"
  by (simp add: arrayify_toStringHex andThen_def)

lemma pack_bytes20_prefixed:
  "list_all isHexChar w \<Longrightarrow> length w = 40 \<Longrightarrow>
   pack (SolBytesN 20 (CHR ''0'' # CHR ''x'' # w)) = Inr (bufferFromHex w)"
  by (simp add: arrayify_prefixed andThen_def length_bufferFromHex)

lemma pack_uint32: "v < 2 ^ 32 \<Longrightarrow> pack (SolUint 32 v) = Inr (bigEndian 4 v)"
  by simp

lemma pack_uint64: "v < 2 ^ 64 \<Longrightarrow> pack (SolUint 64 v) = Inr (bigEndian 8 v)"
  by simp

lemma buildRedemptionKey_bytes:
  assumes "list_all isHexChar wpkh" and "length wpkh = 40"
  shows "buildRedemptionKey keccak256 wpkh outputScript =
         Inr (hexlify (digestBytes (keccak256
           (digestBytes (keccak256
              (word_of_nat (length (bufferFromHex outputScript))
                 # bufferFromHex outputScript))
            @ bufferFromHex wpkh))))"
proof -
  let ?raw = "bufferFromHex outputScript"
  let ?pre = "word_of_nat (length ?raw) # ?raw"
  have inner: "solidityKeccak256 keccak256 [SolBytes (CHR ''0'' # CHR ''x'' # toStringHex ?pre)]
               = Inr (hexlify (digestBytes (keccak256 ?pre)))"
    by (simp only: solidityKeccak256_def solidityPack.simps pack_bytes_toStringHex andThen_def
        sum.case append_Nil2)
  have outer: "solidityKeccak256 keccak256
                 [SolBytesN 32 (hexlify (digestBytes (keccak256 ?pre))),
                  SolBytesN 20 (CHR ''0'' # CHR ''x'' # wpkh)]
               = Inr (hexlify (digestBytes (keccak256
                   (digestBytes (keccak256 ?pre) @ bufferFromHex wpkh))))"
    using assms
    by (simp add: solidityKeccak256_def hexlify_def pack_bytes32_toStringHex length_digestBytes
        pack_bytes20_prefixed andThen_def del: pack.simps)
  show ?thesis
    using inner outer by (simp add: buildRedemptionKey_def Let_def andThen_def)
qed

lemma bigEndianValue_snoc: "bigEndianValue (bs @ [b]) = 256 * bigEndianValue bs + unat b"
  by (simp add: bigEndianValue_def)

lemma bigEndianValue_bigEndian: "bigEndianValue (bigEndian n v) = v mod 256 ^ n"
proof (induction n arbitrary: v)
  case 0
  show ?case by (simp add: bigEndianValue_def)
next
  case (Suc n)
  have "unat (word_of_nat (v mod 256) :: byte) = v mod 256"
    by (simp add: unat_of_nat)
  then have "bigEndianValue (bigEndian (Suc n) v) = 256 * (v div 256 mod 256 ^ n) + v mod 256"
    by (simp add: bigEndianValue_snoc Suc.IH)
  also have "\<dots> = v mod 256 ^ Suc n"
    by (simp add: mod_mult2_eq)
  finally show ?case .
qed

lemma solidityKeccak256_bytes32_uint32:
  assumes "length bs = 32" and "idx < 2 ^ 32"
  shows "solidityKeccak256 keccak256
           [SolBytesN 32 (CHR ''0'' # CHR ''x'' # toStringHex bs), SolUint 32 idx]
         = Inr (hexlify (digestBytes (keccak256 (bs @ bigEndian 4 idx))))"
  using assms
  by (simp add: solidityKeccak256_def pack_bytes32_toStringHex pack_uint32 andThen_def
      del: pack.simps)

section \<open>Deposit key and UTXO hash\<close>

text \<open>
  Claim C7. For a 32-byte transaction hash and an output index below \<open>2 ^ 32\<close>,
  \<open>buildDepositKey\<close> returns the hash of the byte-reversed transaction hash followed
  by the output index as four bytes, most significant first: the digest that
  \<open>depositKey\<close> gives in the spec's words, as a \<open>0x\<close>-prefixed hex string.
\<close>

theorem buildDepositKey_reversed_hash_then_index:
  assumes "length depositTxHash = 32" and "depositOutputIndex < 2 ^ 32"
  shows "buildDepositKey keccak256 depositTxHash depositOutputIndex
           = Inr (hexlify (digestBytes
                (keccak256 (rev depositTxHash @ bigEndian 4 depositOutputIndex))))
         \<and> length (bigEndian 4 depositOutputIndex) = 4
         \<and> bigEndianValue (bigEndian 4 depositOutputIndex) = depositOutputIndex
         \<and> keccak256 (rev depositTxHash @ bigEndian 4 depositOutputIndex)
             = depositKey keccak256 depositTxHash depositOutputIndex"
proof -
  have "length (rev depositTxHash) = 32" using assms(1) by simp
  then have "buildDepositKey keccak256 depositTxHash depositOutputIndex
      = Inr (hexlify (digestBytes
                (keccak256 (rev depositTxHash @ bigEndian 4 depositOutputIndex))))"
    using assms(2)
    by (simp add: buildDepositKey_def Hex_toPrefixedString_def Hex_reverse_def
        solidityKeccak256_bytes32_uint32 del: bigEndian.simps)
  moreover have "bigEndianValue (bigEndian 4 depositOutputIndex) = depositOutputIndex"
    using assms(2) by (simp add: bigEndianValue_bigEndian del: bigEndian.simps)
  ultimately show ?thesis
    by (simp add: length_bigEndian depositKey_def del: bigEndian.simps)
qed

theorem buildDepositKey_witness:
  "length (map word_of_nat [0..<32] :: byte list) = 32 \<and> (1::nat) < 2 ^ 32
   \<and> buildDepositKey sampleHash (map word_of_nat [0..<32]) 1
       = Inr (hexlify (digestBytes
            (sampleHash (rev (map word_of_nat [0..<32]) @ bigEndian 4 1))))"
proof -
  have h: "length (map word_of_nat [0..<32] :: byte list) = 32" by simp
  have i: "(1::nat) < 2 ^ 32" by simp
  from buildDepositKey_reversed_hash_then_index [OF h i, of sampleHash] h i
  show ?thesis by blast
qed

lemma solidityKeccak256_bytes32_uint32_uint64:
  assumes "length bs = 32" and "idx < 2 ^ 32" and "v < 2 ^ 64"
  shows "solidityKeccak256 keccak256
           [SolBytesN 32 (CHR ''0'' # CHR ''x'' # toStringHex bs), SolUint 32 idx, SolUint 64 v]
         = Inr (hexlify (digestBytes (keccak256 (bs @ bigEndian 4 idx @ bigEndian 8 v))))"
  using assms
  by (simp add: solidityKeccak256_def pack_bytes32_toStringHex pack_uint32 pack_uint64
      andThen_def del: pack.simps)

text \<open>
  Claim C8. For a UTXO with a 32-byte transaction hash, an output index below
  \<open>2 ^ 32\<close> and a value below \<open>2 ^ 64\<close>, \<open>buildUtxoHash\<close> returns the hash of
  the byte-reversed transaction hash, the output index as four bytes and the value as
  eight bytes, each most significant byte first: the digest \<open>utxoHash\<close> gives.
\<close>

theorem buildUtxoHash_reversed_hash_index_value:
  assumes "length (BitcoinUtxo.transactionHash utxo) = 32"
    and "BitcoinUtxo.outputIndex utxo < 2 ^ 32"
    and "BitcoinUtxo.value utxo < 2 ^ 64"
  shows "buildUtxoHash keccak256 utxo
           = Inr (digestBytes
                (keccak256 (rev (BitcoinUtxo.transactionHash utxo)
                   @ bigEndian 4 (BitcoinUtxo.outputIndex utxo)
                   @ bigEndian 8 (BitcoinUtxo.value utxo))))
         \<and> length (bigEndian 4 (BitcoinUtxo.outputIndex utxo)) = 4
         \<and> length (bigEndian 8 (BitcoinUtxo.value utxo)) = 8
         \<and> bigEndianValue (bigEndian 4 (BitcoinUtxo.outputIndex utxo))
             = BitcoinUtxo.outputIndex utxo
         \<and> bigEndianValue (bigEndian 8 (BitcoinUtxo.value utxo)) = BitcoinUtxo.value utxo
         \<and> buildUtxoHash keccak256 utxo = Inr (digestBytes (utxoHash keccak256 utxo))"
proof -
  let ?h = "BitcoinUtxo.transactionHash utxo"
  have "length (rev ?h) = 32" using assms(1) by simp
  then have key: "solidityKeccak256 keccak256
           [SolBytesN 32 (CHR ''0'' # CHR ''x'' # toStringHex (rev ?h)),
            SolUint 32 (BitcoinUtxo.outputIndex utxo), SolUint 64 (BitcoinUtxo.value utxo)]
         = Inr (hexlify (digestBytes (keccak256 (rev ?h
             @ bigEndian 4 (BitcoinUtxo.outputIndex utxo)
             @ bigEndian 8 (BitcoinUtxo.value utxo)))))"
    using assms(2,3) by (rule solidityKeccak256_bytes32_uint32_uint64)
  have code: "buildUtxoHash keccak256 utxo
           = Inr (digestBytes
                (keccak256 (rev ?h
                   @ bigEndian 4 (BitcoinUtxo.outputIndex utxo)
                   @ bigEndian 8 (BitcoinUtxo.value utxo))))"
    unfolding buildUtxoHash_def Hex_toPrefixedString_def Hex_reverse_def
    by (simp only: append_Cons append_Nil key andThen_def sum.case hexlify_def
        Hex_from_prefixed)
  have v4: "bigEndianValue (bigEndian 4 (BitcoinUtxo.outputIndex utxo))
             = BitcoinUtxo.outputIndex utxo"
    using assms(2) by (simp add: bigEndianValue_bigEndian del: bigEndian.simps)
  have v8: "bigEndianValue (bigEndian 8 (BitcoinUtxo.value utxo)) = BitcoinUtxo.value utxo"
    using assms(3) by (simp add: bigEndianValue_bigEndian del: bigEndian.simps)
  show ?thesis
    using code v4 v8 by (simp add: length_bigEndian utxoHash_def del: bigEndian.simps)
qed

theorem buildUtxoHash_witness:
  "length (BitcoinUtxo.transactionHash
      \<lparr>BitcoinUtxo.transactionHash = map word_of_nat [0..<32],
       BitcoinUtxo.outputIndex = 1, BitcoinUtxo.value = 100000\<rparr>) = 32
   \<and> buildUtxoHash sampleHash
        \<lparr>BitcoinUtxo.transactionHash = map word_of_nat [0..<32],
         BitcoinUtxo.outputIndex = 1, BitcoinUtxo.value = 100000\<rparr>
       = Inr (digestBytes
            (sampleHash (rev (map word_of_nat [0..<32]) @ bigEndian 4 1 @ bigEndian 8 100000)))"
proof -
  let ?u = "\<lparr>BitcoinUtxo.transactionHash = map word_of_nat [0..<32],
             BitcoinUtxo.outputIndex = 1, BitcoinUtxo.value = 100000\<rparr>"
  have h: "length (BitcoinUtxo.transactionHash ?u) = 32" by simp
  have i: "BitcoinUtxo.outputIndex ?u < 2 ^ 32" by simp
  have v: "BitcoinUtxo.value ?u < 2 ^ 64" by simp
  from buildUtxoHash_reversed_hash_index_value [OF h i v, of sampleHash] h
  show ?thesis by (simp del: bigEndian.simps upt.simps)
qed

section \<open>Redemption key\<close>

text \<open>
  Claim C2. For a wallet public key hash of 20 bytes (40 hex digits) and an output
  script of at most 255 bytes, \<open>buildRedemptionKey\<close> hashes the script prefixed with
  one byte equal to its length, and then hashes that digest followed by the wallet
  public key hash: the digest \<open>redemptionKey\<close> gives in the spec's words.
\<close>

theorem buildRedemptionKey_two_stage:
  assumes "list_all isHexChar wpkh" and "length wpkh = 40"
    and "length (bufferFromHex outputScript) \<le> 255"
  shows "buildRedemptionKey keccak256 wpkh outputScript
           = Inr (hexlify (digestBytes (keccak256
               (digestBytes (keccak256
                  (word_of_nat (length (bufferFromHex outputScript))
                     # bufferFromHex outputScript))
                @ bufferFromHex wpkh))))
         \<and> unat (word_of_nat (length (bufferFromHex outputScript)) :: byte)
             = length (bufferFromHex outputScript)
         \<and> length (bufferFromHex wpkh) = 20
         \<and> redemptionKey keccak256 (bufferFromHex wpkh) (bufferFromHex outputScript)
             = Some (keccak256
               (digestBytes (keccak256
                  (word_of_nat (length (bufferFromHex outputScript))
                     # bufferFromHex outputScript))
                @ bufferFromHex wpkh))"
proof -
  have "unat (word_of_nat (length (bufferFromHex outputScript)) :: byte)
          = length (bufferFromHex outputScript)"
    using assms(3) by (simp add: unat_of_nat)
  moreover have "length (bufferFromHex wpkh) = 20"
    using assms(1,2) by (simp add: length_bufferFromHex)
  moreover have "\<not> 255 < length (bufferFromHex outputScript)"
    using assms(3) by simp
  ultimately show ?thesis
    using buildRedemptionKey_bytes [OF assms(1,2)] by (simp add: redemptionKey_def)
qed

theorem buildRedemptionKey_two_stage_witness:
  "list_all isHexChar ''8db50eb52063ea9d98b3eac91489a90f738986f6''
   \<and> length ''8db50eb52063ea9d98b3eac91489a90f738986f6'' = 40
   \<and> length (bufferFromHex ''00144130879211c54df460e484ddf9aac009cb38ee74'') \<le> 255
   \<and> buildRedemptionKey sampleHash ''8db50eb52063ea9d98b3eac91489a90f738986f6''
        ''00144130879211c54df460e484ddf9aac009cb38ee74''
       = Inr (hexlify (digestBytes (sampleHash
           (digestBytes (sampleHash
              (22 # bufferFromHex ''00144130879211c54df460e484ddf9aac009cb38ee74''))
            @ bufferFromHex ''8db50eb52063ea9d98b3eac91489a90f738986f6''))))"
proof -
  have h: "list_all isHexChar ''8db50eb52063ea9d98b3eac91489a90f738986f6''"
    by (simp add: isHexChar_def hexValue_def)
  have l: "length ''8db50eb52063ea9d98b3eac91489a90f738986f6'' = 40"
    by simp
  have s: "list_all isHexChar ''00144130879211c54df460e484ddf9aac009cb38ee74''"
    by (simp add: isHexChar_def hexValue_def)
  have "length (bufferFromHex ''00144130879211c54df460e484ddf9aac009cb38ee74'')
          = length ''00144130879211c54df460e484ddf9aac009cb38ee74'' div 2"
    by (rule length_bufferFromHex [OF s])
  then have n: "length (bufferFromHex ''00144130879211c54df460e484ddf9aac009cb38ee74'') = 22"
    by (simp del: bufferFromHex.simps)
  then have b: "length (bufferFromHex ''00144130879211c54df460e484ddf9aac009cb38ee74'') \<le> 255"
    by (simp del: bufferFromHex.simps)
  from buildRedemptionKey_two_stage [OF h l b, of sampleHash] h l b n
  show ?thesis by (simp del: bufferFromHex.simps)
qed

lemma word_of_nat_256: "(word_of_nat 256 :: byte) = 0"
  by simp

text \<open>
  Claim C4 asks the derivation to fail for an output script of more than 255 bytes.
  At a script of 256 bytes \<open>buildRedemptionKey\<close> returns a key: the byte it puts
  before the script is 0, not the length that the comment in the source announces,
  where the rule in the spec's words has no key.
\<close>

theorem buildRedemptionKey_256_byte_script:
  "length (bufferFromHex (toStringHex (replicate 256 0))) = 256
   \<and> buildRedemptionKey sampleHash (toStringHex (replicate 20 0))
        (toStringHex (replicate 256 0))
       = Inr (hexlify (digestBytes (sampleHash
           (digestBytes (sampleHash (0 # replicate 256 0)) @ replicate 20 0))))
   \<and> redemptionKey sampleHash (replicate 20 0) (replicate 256 0) = None"
proof -
  have h: "list_all isHexChar (toStringHex (replicate 20 0))"
    by (rule list_all_isHexChar_toStringHex)
  have l: "length (toStringHex (replicate 20 0)) = 40"
    by (simp add: length_toStringHex)
  have "buildRedemptionKey sampleHash (toStringHex (replicate 20 0))
        (toStringHex (replicate 256 0))
       = Inr (hexlify (digestBytes (sampleHash
           (digestBytes (sampleHash (0 # replicate 256 0)) @ replicate 20 0))))"
    using buildRedemptionKey_bytes [OF h l, of sampleHash "toStringHex (replicate 256 0)"]
    by (simp only: bufferFromHex_toStringHex length_replicate word_of_nat_256)
  then show ?thesis
    by (simp add: bufferFromHex_toStringHex redemptionKey_def)
qed

section \<open>The redemption transaction\<close>

subsection \<open>Sums within the safe integers\<close>

lemma roundDouble_exact: "\<bar>s\<bar> \<le> 2 ^ 53 \<Longrightarrow> roundDouble s = s"
  by (simp add: roundDouble_def)

lemma jsAdd_exact:
  "0 \<le> a \<Longrightarrow> 0 \<le> b \<Longrightarrow> a + b \<le> MAX_SAFE_INTEGER \<Longrightarrow> jsAdd a b = a + b"
  by (simp add: jsAdd_def MAX_SAFE_INTEGER_def roundDouble_exact)

lemma jsSub_exact:
  "0 \<le> b \<Longrightarrow> b \<le> a \<Longrightarrow> a \<le> MAX_SAFE_INTEGER \<Longrightarrow> jsSub a b = a - b"
  by (simp add: jsSub_def MAX_SAFE_INTEGER_def roundDouble_exact)

lemma toNumber_safe:
  "0 \<le> v \<Longrightarrow> v \<le> MAX_SAFE_INTEGER \<Longrightarrow> toNumber v = Inr v"
  by (simp add: toNumber_def isSafeInteger_def MAX_SAFE_INTEGER_def)

lemma addOutput_safe:
  "0 \<le> value out \<Longrightarrow> value out \<le> MAX_SAFE_INTEGER \<Longrightarrow> addOutput outs out = Inr (outs @ [out])"
  by (simp add: addOutput_def isSafeInteger_def MAX_SAFE_INTEGER_def)

lemma foldl_jsAdd_exact:
  "0 \<le> acc \<Longrightarrow> \<forall>x \<in> set xs. 0 \<le> x \<Longrightarrow> acc + sum_list xs \<le> MAX_SAFE_INTEGER
   \<Longrightarrow> foldl jsAdd acc xs = acc + sum_list xs"
proof (induction xs arbitrary: acc)
  case Nil
  show ?case by simp
next
  case (Cons x xs)
  have x: "0 \<le> x" and rest: "\<forall>y \<in> set xs. 0 \<le> y" using Cons.prems(2) by simp_all
  have nonneg: "0 \<le> sum_list xs" using rest by (simp add: sum_list_nonneg)
  have step: "jsAdd acc x = acc + x"
    using Cons.prems(1,3) x nonneg by (intro jsAdd_exact) simp_all
  have "foldl jsAdd (acc + x) xs = acc + x + sum_list xs"
    using Cons.prems(1,3) x rest by (intro Cons.IH) simp_all
  then show ?case by (simp add: step)
qed

text \<open>Beyond \<open>2 ^ 53\<close> a sum is rounded to a multiple of a power of two.\<close>

lemma bitLength_bounds: "2 ^ k \<le> n \<Longrightarrow> n < 2 ^ Suc k \<Longrightarrow> bitLength n = Suc k"
proof (induction k arbitrary: n)
  case 0
  then have "n = 1" by simp
  then show ?case by simp
next
  case (Suc k)
  have "2 ^ k \<le> n div 2" using Suc.prems(1) by simp
  moreover have "n div 2 < 2 ^ Suc k" using Suc.prems(2) by simp
  ultimately have "bitLength (n div 2) = Suc k" by (rule Suc.IH)
  moreover have "n \<noteq> 0"
  proof
    assume "n = 0"
    with Suc.prems(1) have "(2::nat) ^ Suc k \<le> 0" by simp
    then show False by simp
  qed
  ultimately show ?case by (subst bitLength.simps) simp
qed

lemma roundDouble_above_safe:
  "roundDouble (2 ^ 53 + 1) = 2 ^ 53" "roundDouble (2 ^ 53 + 3) = 2 ^ 53 + 4"
proof -
  have a: "bitLength (nat \<bar>2 ^ 53 + 1\<bar>) = Suc 53"
    by (rule bitLength_bounds) simp_all
  have b: "bitLength (nat \<bar>2 ^ 53 + 3\<bar>) = Suc 53"
    by (rule bitLength_bounds) simp_all
  show "roundDouble (2 ^ 53 + 1) = 2 ^ 53"
    unfolding roundDouble_def Let_def a by simp
  show "roundDouble (2 ^ 53 + 3) = 2 ^ 53 + 4"
    unfolding roundDouble_def Let_def b by simp
qed

subsection \<open>The loop over the requests\<close>

lemma processRequests_exact:
  assumes "\<forall>r \<in> set rs. 0 \<le> txMaxFee r \<and> txMaxFee r + treasuryFee r \<le> requestedAmount r"
    and "0 \<le> fee" and "0 \<le> tot"
    and "fee + sum_list (map txMaxFee rs) \<le> MAX_SAFE_INTEGER"
    and "tot + sum_list (map (\<lambda>r. requestedAmount r - txMaxFee r - treasuryFee r) rs)
           \<le> MAX_SAFE_INTEGER"
  shows "processRequests rs (added, fee, tot)
     = Inr (added @ map (\<lambda>r. \<lparr>script = ScriptFromRaw (bufferFromHex (redeemerOutputScript r)),
                            value = requestedAmount r - txMaxFee r - treasuryFee r\<rparr>) rs,
            fee + sum_list (map txMaxFee rs),
            tot + sum_list (map (\<lambda>r. requestedAmount r - txMaxFee r - treasuryFee r) rs))"
  using assms
proof (induction rs arbitrary: added fee tot)
  case Nil
  show ?case by simp
next
  case (Cons r rs)
  let ?v = "requestedAmount r - txMaxFee r - treasuryFee r"
  let ?outs = "map (\<lambda>r. requestedAmount r - txMaxFee r - treasuryFee r) rs"
  have f0: "0 \<le> txMaxFee r" and v0: "0 \<le> ?v"
    and rest: "\<forall>r \<in> set rs. 0 \<le> txMaxFee r \<and> txMaxFee r + treasuryFee r \<le> requestedAmount r"
    using Cons.prems(1) by simp_all
  have fees0: "0 \<le> sum_list (map txMaxFee rs)"
    using rest by (intro sum_list_nonneg) auto
  have outs0: "0 \<le> sum_list ?outs"
    using rest by (intro sum_list_nonneg) auto
  have fsafe: "txMaxFee r \<le> MAX_SAFE_INTEGER" and fsum: "fee + txMaxFee r \<le> MAX_SAFE_INTEGER"
    using Cons.prems(2,4) f0 fees0 by simp_all
  have vsafe: "?v \<le> MAX_SAFE_INTEGER" and vsum: "tot + ?v \<le> MAX_SAFE_INTEGER"
    using Cons.prems(3,5) v0 outs0 by simp_all
  have n1: "toNumber ?v = Inr ?v" using v0 vsafe by (rule toNumber_safe)
  have n2: "toNumber (txMaxFee r) = Inr (txMaxFee r)" using f0 fsafe by (rule toNumber_safe)
  have add: "addOutput added \<lparr>script = ScriptFromRaw (bufferFromHex (redeemerOutputScript r)),
                                 value = ?v\<rparr>
       = Inr (added @ [\<lparr>script = ScriptFromRaw (bufferFromHex (redeemerOutputScript r)),
                         value = ?v\<rparr>])"
    using v0 vsafe by (intro addOutput_safe) simp_all
  have j1: "jsAdd fee (txMaxFee r) = fee + txMaxFee r"
    using Cons.prems(2) f0 fsum by (rule jsAdd_exact)
  have j2: "jsAdd tot ?v = tot + ?v"
    using Cons.prems(3) v0 vsum by (rule jsAdd_exact)
  have ih: "processRequests rs
      (added @ [\<lparr>script = ScriptFromRaw (bufferFromHex (redeemerOutputScript r)), value = ?v\<rparr>],
       fee + txMaxFee r, tot + ?v)
     = Inr ((added @ [\<lparr>script = ScriptFromRaw (bufferFromHex (redeemerOutputScript r)),
                        value = ?v\<rparr>])
              @ map (\<lambda>r. \<lparr>script = ScriptFromRaw (bufferFromHex (redeemerOutputScript r)),
                            value = requestedAmount r - txMaxFee r - treasuryFee r\<rparr>) rs,
            fee + txMaxFee r + sum_list (map txMaxFee rs),
            tot + ?v + sum_list ?outs)"
    using rest Cons.prems(2,3,4,5) f0 v0 by (intro Cons.IH) simp_all
  show ?case
    by (simp add: Let_def andThen_def n1 n2 add j1 j2 ih del: bufferFromHex.simps)
qed






subsection \<open>Funding and the whole builder\<close>







lemma inputValue_single: "0 \<le> Coin.value coin \<Longrightarrow> Coin.value coin \<le> MAX_SAFE_INTEGER
  \<Longrightarrow> inputValue [coin] = Coin.value coin"
  by (simp add: inputValue_def jsAdd_exact)

lemma outputValue_exact:
  "\<forall>out \<in> set outs. 0 \<le> value out \<Longrightarrow> sum_list (map value outs) \<le> MAX_SAFE_INTEGER
   \<Longrightarrow> outputValue outs = sum_list (map value outs)"
  unfolding outputValue_def
  using foldl_jsAdd_exact [of 0 "map value outs"] by simp

lemma fund_exact:
  assumes "0 \<le> fee" and "fee \<le> MAX_FEE bcoin"
    and "\<forall>out \<in> set outs. 0 \<le> value out"
    and "sum_list (map value outs) + fee = Coin.value coin"
    and "0 < Coin.value coin" and "Coin.value coin \<le> MAX_SAFE_INTEGER"
    and "isDust bcoin \<lparr>script = ScriptFromAddress address, value = 0\<rparr>"
  shows "fund bcoin outs [coin] \<lparr>changeAddress = address, hardFee = fee, subtractFee = False\<rparr>
           = Inr ([coin], outs)"
proof -
  have outs0: "0 \<le> sum_list (map value outs)"
    using assms(3) by (intro sum_list_nonneg) auto
  have sum_safe: "sum_list (map value outs) \<le> MAX_SAFE_INTEGER"
    using assms(1,4,6) by simp
  have ov: "outputValue outs = sum_list (map value outs)"
    using assms(3) sum_safe by (rule outputValue_exact)
  have fee_safe: "isSafeInteger fee"
    using assms(1,4,6) outs0 by (simp add: isSafeInteger_def MAX_SAFE_INTEGER_def)
  have needed: "jsAdd (outputValue outs) fee = Coin.value coin"
    unfolding ov using outs0 assms(1,4,6) by (simp add: jsAdd_exact)
  have empty: "inputValue [] = 0" by (simp add: inputValue_def)
  have iv: "inputValue [coin] = Coin.value coin"
    using assms(5,6) by (intro inputValue_single) simp_all
  have chosen: "selectLoop (Coin.value coin) [coin] [] = [coin]"
    using assms(5) by (simp add: empty)
  have zero: "jsSub (Coin.value coin) (Coin.value coin) = 0"
    by (simp add: jsSub_def roundDouble_exact)
  show ?thesis
    using assms(1,2,5,7) fee_safe
    by (simp add: fund_def Let_def needed empty iv zero min_def isSafeInteger_def)
qed

lemma createRedemptionTransaction_funded:
  fixes bcoin :: Bcoin and utxo :: UnspentTransactionOutput and rs :: "RedemptionRequest list"
    and key :: string and w :: bool
  defines "address \<equiv> getAddress bcoin (createKeyRing key (Some w))"
    and "fees \<equiv> sum_list (map txMaxFee rs)"
    and "redeemed \<equiv> sum_list (map (\<lambda>r. requestedAmount r - txMaxFee r - treasuryFee r) rs)"
  assumes nonempty: "rs \<noteq> []"
    and coin: "rawOutputValue bcoin (transactionHex utxo)
                 (UnspentTransactionOutput.outputIndex utxo)
               = Some (UnspentTransactionOutput.value utxo)"
    and amounts: "\<forall>r \<in> set rs. 0 \<le> txMaxFee r
                    \<and> txMaxFee r + treasuryFee r \<le> requestedAmount r"
    and positive: "0 < UnspentTransactionOutput.value utxo"
    and safe: "UnspentTransactionOutput.value utxo \<le> MAX_SAFE_INTEGER"
    and covered: "redeemed + fees \<le> UnspentTransactionOutput.value utxo"
    and capped: "fees \<le> MAX_FEE bcoin"
    and dust: "isDust bcoin \<lparr>script = ScriptFromAddress address, value = 0\<rparr>"
  shows "createRedemptionTransaction bcoin key utxo rs w
           = Inr \<lparr>Transaction.inputs =
                    [\<lparr>fromTX = transactionHex utxo,
                      index = UnspentTransactionOutput.outputIndex utxo,
                      height = - 1,
                      Coin.value = UnspentTransactionOutput.value utxo\<rparr>],
                  outputs =
                    map (\<lambda>r. \<lparr>script = ScriptFromRaw (bufferFromHex (redeemerOutputScript r)),
                              value = requestedAmount r - txMaxFee r - treasuryFee r\<rparr>) rs
                    @ (if 0 < UnspentTransactionOutput.value utxo - redeemed - fees
                       then [\<lparr>script = ScriptFromAddress address,
                              value = UnspentTransactionOutput.value utxo - redeemed - fees\<rparr>]
                       else []),
                  signedWith = createKeyRing key (Some w)\<rparr>"
proof -
  let ?funds = "UnspentTransactionOutput.value utxo"
  let ?out = "\<lambda>r. \<lparr>script = ScriptFromRaw (bufferFromHex (redeemerOutputScript r)),
                      value = requestedAmount r - txMaxFee r - treasuryFee r\<rparr>"
  let ?coin = "\<lparr>fromTX = transactionHex utxo,
                 index = UnspentTransactionOutput.outputIndex utxo,
                 height = - 1, Coin.value = ?funds\<rparr>"
  let ?change = "?funds - redeemed - fees"
  let ?chg = "\<lparr>script = ScriptFromAddress address, value = ?change\<rparr>"
  have len: "\<not> length rs < 1" using nonempty by (cases rs) simp_all
  have fees0: "0 \<le> fees"
    unfolding fees_def using amounts by (intro sum_list_nonneg) auto
  have redeemed0: "0 \<le> redeemed"
    unfolding redeemed_def using amounts by (intro sum_list_nonneg) auto
  have c: "coinFromTX bcoin (transactionHex utxo) (UnspentTransactionOutput.outputIndex utxo)
             = Inr ?coin"
    by (simp add: coinFromTX_def coin)
  have loop: "processRequests rs ([], 0, 0) = Inr (map ?out rs, fees, redeemed)"
    using processRequests_exact [OF amounts, of 0 0 "[]"] fees0 redeemed0 covered safe
    by (simp add: fees_def redeemed_def)
  have s1: "jsSub ?funds redeemed = ?funds - redeemed"
    using redeemed0 fees0 covered safe by (intro jsSub_exact) simp_all
  have s2: "jsSub (?funds - redeemed) fees = ?change"
    using redeemed0 fees0 covered safe by (intro jsSub_exact) simp_all
  have change0: "0 \<le> ?change" using covered by simp
  have sum_outs: "sum_list (map value (map ?out rs)) = redeemed"
    by (simp add: redeemed_def comp_def)
  have outs0: "\<forall>out \<in> set (map ?out rs). 0 \<le> value out"
    using amounts by auto
  show ?thesis
  proof (cases "0 < ?change")
    case True
    have add: "addOutput (map ?out rs) ?chg = Inr (map ?out rs @ [?chg])"
      using True redeemed0 fees0 safe by (intro addOutput_safe) simp_all
    have f: "fund bcoin (map ?out rs @ [?chg]) [?coin]
               \<lparr>changeAddress = address, hardFee = fees, subtractFee = False\<rparr>
             = Inr ([?coin], map ?out rs @ [?chg])"
      using fees0 capped _ _ _ _ dust
    proof (rule fund_exact)
      show "\<forall>out \<in> set (map ?out rs @ [?chg]). 0 \<le> value out"
        using outs0 True by auto
      show "sum_list (map value (map ?out rs @ [?chg])) + fees = Coin.value ?coin"
        using sum_outs by simp
      show "0 < Coin.value ?coin" using positive by simp
      show "Coin.value ?coin \<le> MAX_SAFE_INTEGER" using safe by simp
    qed
    show ?thesis
      unfolding createRedemptionTransaction_def
      using True nonempty
      by (simp add: Let_def andThen_def c loop s1 s2 add f
          address_def [symmetric] del: bufferFromHex.simps)
  next
    case False
    with change0 have eq: "?change = 0" by simp
    have f: "fund bcoin (map ?out rs) [?coin]
               \<lparr>changeAddress = address, hardFee = fees, subtractFee = False\<rparr>
             = Inr ([?coin], map ?out rs)"
      using fees0 capped _ _ _ _ dust
    proof (rule fund_exact)
      show "\<forall>out \<in> set (map ?out rs). 0 \<le> value out" by (rule outs0)
      show "sum_list (map value (map ?out rs)) + fees = Coin.value ?coin"
        using sum_outs eq by simp
      show "0 < Coin.value ?coin" using positive by simp
      show "Coin.value ?coin \<le> MAX_SAFE_INTEGER" using safe by simp
    qed
    show ?thesis
      unfolding createRedemptionTransaction_def
      using False nonempty
      by (simp add: Let_def andThen_def c loop s1 s2 f
          address_def [symmetric] del: bufferFromHex.simps)
  qed
qed

lemma getFee_exact:
  assumes "\<forall>out \<in> set outs. 0 \<le> value out"
    and "sum_list (map value outs) \<le> Coin.value coin"
    and "Coin.value coin \<le> MAX_SAFE_INTEGER"
  shows "getFee \<lparr>Transaction.inputs = [coin], outputs = outs, signedWith = keyRing\<rparr>
           = Coin.value coin - sum_list (map value outs)"
proof -
  have outs0: "0 \<le> sum_list (map value outs)"
    using assms(1) by (intro sum_list_nonneg) auto
  have coin0: "0 \<le> Coin.value coin" using outs0 assms(2) by simp
  have iv: "inputValue [coin] = Coin.value coin"
    using coin0 assms(3) by (rule inputValue_single)
  have ov: "outputValue outs = sum_list (map value outs)"
    using assms(1) by (rule outputValue_exact) (use assms(2,3) in simp)
  show ?thesis
    unfolding getFee_def using outs0 assms(2,3)
    by (simp add: iv ov jsSub_exact)
qed

lemma createRedemptionTransaction_funded_fee:
  fixes bcoin :: Bcoin and utxo :: UnspentTransactionOutput and rs :: "RedemptionRequest list"
    and address :: string
  defines "fees \<equiv> sum_list (map txMaxFee rs)"
    and "redeemed \<equiv> sum_list (map (\<lambda>r. requestedAmount r - txMaxFee r - treasuryFee r) rs)"
  assumes amounts: "\<forall>r \<in> set rs. 0 \<le> txMaxFee r
                    \<and> txMaxFee r + treasuryFee r \<le> requestedAmount r"
    and safe: "UnspentTransactionOutput.value utxo \<le> MAX_SAFE_INTEGER"
    and covered: "redeemed + fees \<le> UnspentTransactionOutput.value utxo"
  shows "getFee
           \<lparr>Transaction.inputs =
              [\<lparr>fromTX = transactionHex utxo,
                index = UnspentTransactionOutput.outputIndex utxo,
                height = - 1,
                Coin.value = UnspentTransactionOutput.value utxo\<rparr>],
            outputs =
              map (\<lambda>r. \<lparr>script = ScriptFromRaw (bufferFromHex (redeemerOutputScript r)),
                        value = requestedAmount r - txMaxFee r - treasuryFee r\<rparr>) rs
              @ (if 0 < UnspentTransactionOutput.value utxo - redeemed - fees
                 then [\<lparr>script = ScriptFromAddress address,
                        value = UnspentTransactionOutput.value utxo - redeemed - fees\<rparr>]
                 else []),
            signedWith = keyRing\<rparr>
         = fees"
proof -
  let ?funds = "UnspentTransactionOutput.value utxo"
  let ?out = "\<lambda>r. \<lparr>script = ScriptFromRaw (bufferFromHex (redeemerOutputScript r)),
                      value = requestedAmount r - txMaxFee r - treasuryFee r\<rparr>"
  let ?change = "?funds - redeemed - fees"
  let ?outs = "map ?out rs
              @ (if 0 < ?change then [\<lparr>script = ScriptFromAddress address, value = ?change\<rparr>]
                 else [])"
  have fees0: "0 \<le> fees"
    unfolding fees_def using amounts by (intro sum_list_nonneg) auto
  have sum_outs: "sum_list (map value (map ?out rs)) = redeemed"
    by (simp add: redeemed_def comp_def)
  have total: "sum_list (map value ?outs) = ?funds - fees"
    using sum_outs covered by simp
  have nonneg: "\<forall>out \<in> set ?outs. 0 \<le> value out"
    using amounts by auto
  have le: "sum_list (map value ?outs) \<le> ?funds"
    unfolding total using fees0 by simp
  from getFee_exact [of ?outs "\<lparr>fromTX = transactionHex utxo,
                index = UnspentTransactionOutput.outputIndex utxo,
                height = - 1, Coin.value = ?funds\<rparr>" keyRing] nonneg le safe
  have "getFee \<lparr>Transaction.inputs =
              [\<lparr>fromTX = transactionHex utxo,
                index = UnspentTransactionOutput.outputIndex utxo,
                height = - 1, Coin.value = ?funds\<rparr>],
            outputs = ?outs, signedWith = keyRing\<rparr>
        = ?funds - sum_list (map value ?outs)"
    by simp
  then show ?thesis unfolding total by simp
qed

text \<open>
  Claim C1, for a funding UTXO that covers the requests. Let the list of requests be
  non-empty; let the output of the raw funding transaction at the UTXO's index hold
  the value the UTXO declares, a positive safe integer; let every request have a
  \<open>txMaxFee\<close> that is not negative and a \<open>requestedAmount\<close> of at least
  \<open>txMaxFee + treasuryFee\<close>; let the outputs and the fees together not exceed the
  funding value, the fees not exceed the library's \<open>MAX_FEE\<close>, and the library
  count an output of value 0 as dust. Then \<open>createRedemptionTransaction\<close> returns a
  transaction whose only input is the funding coin; whose outputs are one per request,
  in order, of value \<open>requestedAmount - txMaxFee - treasuryFee\<close> and locked to the
  request's output script, followed by a change output to the wallet's address of
  value \<open>value - sum outputs - sum txMaxFee\<close> exactly when that value is positive;
  and whose fee, the inputs less the outputs, is the sum of the requests'
  \<open>txMaxFee\<close>.
\<close>

theorem createRedemptionTransaction_builds_when_covered:
  fixes bcoin :: Bcoin and mainUtxo :: UnspentTransactionOutput
    and redemptionRequests :: "RedemptionRequest list"
    and walletPrivateKey :: string and witness :: bool
  defines "walletAddress \<equiv> getAddress bcoin (createKeyRing walletPrivateKey (Some witness))"
    and "fees \<equiv> sum_list (map txMaxFee redemptionRequests)"
    and "redeemed \<equiv>
           sum_list (map (\<lambda>r. requestedAmount r - txMaxFee r - treasuryFee r)
                       redemptionRequests)"
  defines "built \<equiv>
      \<lparr>Transaction.inputs =
         [\<lparr>fromTX = transactionHex mainUtxo,
           index = UnspentTransactionOutput.outputIndex mainUtxo,
           height = - 1,
           Coin.value = UnspentTransactionOutput.value mainUtxo\<rparr>],
       outputs =
         map (\<lambda>r. \<lparr>script = ScriptFromRaw (bufferFromHex (redeemerOutputScript r)),
                   value = requestedAmount r - txMaxFee r - treasuryFee r\<rparr>)
           redemptionRequests
         @ (if 0 < UnspentTransactionOutput.value mainUtxo - redeemed - fees
            then [\<lparr>script = ScriptFromAddress walletAddress,
                   value = UnspentTransactionOutput.value mainUtxo - redeemed - fees\<rparr>]
            else []),
       signedWith = createKeyRing walletPrivateKey (Some witness)\<rparr>"
  assumes "redemptionRequests \<noteq> []"
    and "rawOutputValue bcoin (transactionHex mainUtxo)
           (UnspentTransactionOutput.outputIndex mainUtxo)
         = Some (UnspentTransactionOutput.value mainUtxo)"
    and "0 < UnspentTransactionOutput.value mainUtxo"
    and "UnspentTransactionOutput.value mainUtxo \<le> MAX_SAFE_INTEGER"
    and "\<forall>r \<in> set redemptionRequests.
           0 \<le> txMaxFee r \<and> txMaxFee r + treasuryFee r \<le> requestedAmount r"
    and "redeemed + fees \<le> UnspentTransactionOutput.value mainUtxo"
    and "fees \<le> MAX_FEE bcoin"
    and "isDust bcoin \<lparr>script = ScriptFromAddress walletAddress, value = 0\<rparr>"
  shows "createRedemptionTransaction bcoin walletPrivateKey mainUtxo redemptionRequests witness
           = Inr built
         \<and> getFee built = fees"
proof
  show "createRedemptionTransaction bcoin walletPrivateKey mainUtxo redemptionRequests witness
           = Inr built"
    unfolding built_def redeemed_def fees_def walletAddress_def
    using assms(5,6,9,7,8) assms(10-12) [unfolded redeemed_def fees_def walletAddress_def]
    by (rule createRedemptionTransaction_funded)
  show "getFee built = fees"
    unfolding built_def redeemed_def fees_def
    using assms(9,8) assms(10) [unfolded redeemed_def fees_def]
    by (rule createRedemptionTransaction_funded_fee)
qed

lemma sampleBcoin_simps:
  "getAddress sampleBcoin keyRing = ''wallet''"
  "rawOutputValue sampleBcoin hex i = (if hex = ''0100'' then Some 100000 else None)"
  "MAX_FEE sampleBcoin = 10000000"
  "isDust sampleBcoin out = (value out < 546)"
  by (simp_all add: sampleBcoin_def)

theorem createRedemptionTransaction_builds_when_covered_witness:
  "createRedemptionTransaction sampleBcoin ''key''
     \<lparr>UnspentTransactionOutput.transactionHash = ''f8'',
      UnspentTransactionOutput.outputIndex = 1,
      UnspentTransactionOutput.value = 100000, transactionHex = ''0100''\<rparr>
     [\<lparr>redeemer = ''a1'', redeemerOutputScript = ''0014aa'', requestedAmount = 50000,
      treasuryFee = 100, txMaxFee = 400, requestedAt = 1650000000\<rparr>]
     True
    = Inr \<lparr>Transaction.inputs =
             [\<lparr>fromTX = ''0100'', index = 1, height = - 1, Coin.value = 100000\<rparr>],
          outputs =
             [\<lparr>script = ScriptFromRaw (bufferFromHex ''0014aa''), value = 49500\<rparr>,
              \<lparr>script = ScriptFromAddress ''wallet'', value = 50100\<rparr>],
          signedWith = createKeyRing ''key'' (Some True)\<rparr>
   \<and> getFee
       \<lparr>Transaction.inputs =
          [\<lparr>fromTX = ''0100'', index = 1, height = - 1, Coin.value = 100000\<rparr>],
        outputs =
          [\<lparr>script = ScriptFromRaw (bufferFromHex ''0014aa''), value = 49500\<rparr>,
           \<lparr>script = ScriptFromAddress ''wallet'', value = 50100\<rparr>],
        signedWith = createKeyRing ''key'' (Some True)\<rparr>
     = 400
   \<and> createRedemptionTransaction sampleBcoin ''key''
     \<lparr>UnspentTransactionOutput.transactionHash = ''f8'',
      UnspentTransactionOutput.outputIndex = 1,
      UnspentTransactionOutput.value = 100000, transactionHex = ''0100''\<rparr>
     [\<lparr>redeemer = ''a1'', redeemerOutputScript = ''0014aa'', requestedAmount = 50000,
      treasuryFee = 100, txMaxFee = 400, requestedAt = 1650000000\<rparr>,
      \<lparr>redeemer = ''b2'', redeemerOutputScript = ''0014bb'', requestedAmount = 30000,
      treasuryFee = 60, txMaxFee = 300, requestedAt = 1650000001\<rparr>]
     True
    = Inr \<lparr>Transaction.inputs =
             [\<lparr>fromTX = ''0100'', index = 1, height = - 1, Coin.value = 100000\<rparr>],
          outputs =
             [\<lparr>script = ScriptFromRaw (bufferFromHex ''0014aa''), value = 49500\<rparr>,
              \<lparr>script = ScriptFromRaw (bufferFromHex ''0014bb''), value = 29640\<rparr>,
              \<lparr>script = ScriptFromAddress ''wallet'', value = 20160\<rparr>],
          signedWith = createKeyRing ''key'' (Some True)\<rparr>
   \<and> getFee
       \<lparr>Transaction.inputs =
          [\<lparr>fromTX = ''0100'', index = 1, height = - 1, Coin.value = 100000\<rparr>],
        outputs =
          [\<lparr>script = ScriptFromRaw (bufferFromHex ''0014aa''), value = 49500\<rparr>,
           \<lparr>script = ScriptFromRaw (bufferFromHex ''0014bb''), value = 29640\<rparr>,
           \<lparr>script = ScriptFromAddress ''wallet'', value = 20160\<rparr>],
        signedWith = createKeyRing ''key'' (Some True)\<rparr>
     = 700"
  using createRedemptionTransaction_builds_when_covered
    [where bcoin = sampleBcoin and walletPrivateKey = "''key''" and witness = True
       and mainUtxo = "\<lparr>UnspentTransactionOutput.transactionHash = ''f8'',
      UnspentTransactionOutput.outputIndex = 1,
      UnspentTransactionOutput.value = 100000, transactionHex = ''0100''\<rparr>"
       and redemptionRequests =
         "[\<lparr>redeemer = ''a1'', redeemerOutputScript = ''0014aa'', requestedAmount = 50000,
      treasuryFee = 100, txMaxFee = 400, requestedAt = 1650000000\<rparr>]"]
    createRedemptionTransaction_builds_when_covered
    [where bcoin = sampleBcoin and walletPrivateKey = "''key''" and witness = True
       and mainUtxo = "\<lparr>UnspentTransactionOutput.transactionHash = ''f8'',
      UnspentTransactionOutput.outputIndex = 1,
      UnspentTransactionOutput.value = 100000, transactionHex = ''0100''\<rparr>"
       and redemptionRequests =
         "[\<lparr>redeemer = ''a1'', redeemerOutputScript = ''0014aa'', requestedAmount = 50000,
      treasuryFee = 100, txMaxFee = 400, requestedAt = 1650000000\<rparr>,
      \<lparr>redeemer = ''b2'', redeemerOutputScript = ''0014bb'', requestedAmount = 30000,
      treasuryFee = 60, txMaxFee = 300, requestedAt = 1650000001\<rparr>]"]
  by (simp add: sampleBcoin_simps MAX_SAFE_INTEGER_def del: bufferFromHex.simps)

lemma js_small:
  "\<bar>a + b\<bar> \<le> 9007199254740992 \<Longrightarrow> jsAdd a b = a + b"
  "\<bar>a - b\<bar> \<le> 9007199254740992 \<Longrightarrow> jsSub a b = a - b"
  by (simp_all add: jsAdd_def jsSub_def roundDouble_def)

lemma createRedemptionTransaction_single:
  "createRedemptionTransaction bcoin key utxo [request] w
     = andThen (coinFromTX bcoin (transactionHex utxo) (UnspentTransactionOutput.outputIndex utxo))
         (\<lambda>coin.
            andThen (processRequests [request] ([], 0, 0))
              (\<lambda>(added, txTotalFee, totalOutputsValue).
                 andThen
                   (if jsSub (jsSub (UnspentTransactionOutput.value utxo) totalOutputsValue)
                         txTotalFee > 0
                    then addOutput added
                           \<lparr>script = ScriptFromAddress
                                      (getAddress bcoin (createKeyRing key (Some w))),
                            value = jsSub (jsSub (UnspentTransactionOutput.value utxo)
                                             totalOutputsValue) txTotalFee\<rparr>
                    else Inr added)
                   (\<lambda>transactionOutputs.
                      andThen
                        (fund bcoin transactionOutputs [coin]
                           \<lparr>changeAddress = getAddress bcoin (createKeyRing key (Some w)),
                            hardFee = txTotalFee, subtractFee = False\<rparr>)
                        (\<lambda>(chosen, funded).
                           Inr \<lparr>Transaction.inputs = chosen, outputs = funded,
                                signedWith = createKeyRing key (Some w)\<rparr>))))"
  by (simp add: createRedemptionTransaction_def Let_def)

text \<open>
  The example of the specification, evaluated: for a funding value of 100000 and the
  request \<open>{requestedAmount: 50000, treasuryFee: 100, txMaxFee: 400}\<close> the change is
  \<open>100000 - 49500 - 400 = 50100\<close>, not 49600. And a non-empty list does not always
  give a transaction: a request of 200000 on the same UTXO ends in the library's
  \<open>FundingError\<close>, a request of 400 with fees of 500 in its refusal of the
  negative output value, a request of \<open>2 ^ 53 + 500\<close> in the failure of
  \<open>toNumber\<close>; and a UTXO that declares 90000 where the raw transaction holds
  100000 gets a second change output from the library.
\<close>

theorem createRedemptionTransaction_change_counterexample:
  "createRedemptionTransaction sampleBcoin ''key''
     \<lparr>UnspentTransactionOutput.transactionHash = ''f8'',
      UnspentTransactionOutput.outputIndex = 1,
      UnspentTransactionOutput.value = 100000, transactionHex = ''0100''\<rparr>
     [\<lparr>redeemer = ''a1'', redeemerOutputScript = ''0014aa'', requestedAmount = 50000,
      treasuryFee = 100, txMaxFee = 400, requestedAt = 1650000000\<rparr>]
     True
    = Inr \<lparr>Transaction.inputs =
             [\<lparr>fromTX = ''0100'', index = 1, height = - 1, Coin.value = 100000\<rparr>],
          outputs =
             [\<lparr>script = ScriptFromRaw (bufferFromHex ''0014aa''), value = 49500\<rparr>,
              \<lparr>script = ScriptFromAddress ''wallet'', value = 50100\<rparr>],
          signedWith = createKeyRing ''key'' (Some True)\<rparr>
   \<and> createRedemptionTransaction sampleBcoin ''key''
     \<lparr>UnspentTransactionOutput.transactionHash = ''f8'',
      UnspentTransactionOutput.outputIndex = 1,
      UnspentTransactionOutput.value = 100000, transactionHex = ''0100''\<rparr>
     [\<lparr>redeemer = ''a1'', redeemerOutputScript = ''0014aa'', requestedAmount = 200000,
      treasuryFee = 100, txMaxFee = 400, requestedAt = 1650000000\<rparr>]
     True
    = Inl FundingError
   \<and> createRedemptionTransaction sampleBcoin ''key''
     \<lparr>UnspentTransactionOutput.transactionHash = ''f8'',
      UnspentTransactionOutput.outputIndex = 1,
      UnspentTransactionOutput.value = 100000, transactionHex = ''0100''\<rparr>
     [\<lparr>redeemer = ''a1'', redeemerOutputScript = ''0014aa'', requestedAmount = 400,
      treasuryFee = 100, txMaxFee = 400, requestedAt = 1650000000\<rparr>]
     True
    = Inl AssertionError
   \<and> createRedemptionTransaction sampleBcoin ''key''
     \<lparr>UnspentTransactionOutput.transactionHash = ''f8'',
      UnspentTransactionOutput.outputIndex = 1,
      UnspentTransactionOutput.value = 100000, transactionHex = ''0100''\<rparr>
     [\<lparr>redeemer = ''a1'', redeemerOutputScript = ''0014aa'',
      requestedAmount = 9007199254741492,
      treasuryFee = 100, txMaxFee = 400, requestedAt = 1650000000\<rparr>]
     True
    = Inl NumericFault
   \<and> createRedemptionTransaction sampleBcoin ''key''
     \<lparr>UnspentTransactionOutput.transactionHash = ''f8'',
      UnspentTransactionOutput.outputIndex = 1,
      UnspentTransactionOutput.value = 90000, transactionHex = ''0100''\<rparr>
     [\<lparr>redeemer = ''a1'', redeemerOutputScript = ''0014aa'', requestedAmount = 50000,
      treasuryFee = 100, txMaxFee = 400, requestedAt = 1650000000\<rparr>]
     True
    = Inr \<lparr>Transaction.inputs =
             [\<lparr>fromTX = ''0100'', index = 1, height = - 1, Coin.value = 100000\<rparr>],
          outputs =
             [\<lparr>script = ScriptFromRaw (bufferFromHex ''0014aa''), value = 49500\<rparr>,
              \<lparr>script = ScriptFromAddress ''wallet'', value = 40100\<rparr>,
              \<lparr>script = ScriptFromAddress ''wallet'', value = 10000\<rparr>],
          signedWith = createKeyRing ''key'' (Some True)\<rparr>"
  by (simp add: createRedemptionTransaction_single andThen_def coinFromTX_def toNumber_def
      isSafeInteger_def MAX_SAFE_INTEGER_def addOutput_def fund_def inputValue_def
      outputValue_def js_small Let_def sampleBcoin_def
      del: bufferFromHex.simps)




section \<open>Fetching the pending redemptions\<close>

lemma fetchLoop_all_found:
  assumes "\<forall>s \<in> set scripts. pendingRedemptions bridge wpkh s = Inr (found s)
             \<and> requestedAt (found s) \<noteq> 0"
  shows "fetchLoop bridge wpkh scripts acc
           = Inr (acc @ map (\<lambda>s. (found s)\<lparr>redeemerOutputScript := s\<rparr>) scripts)"
  using assms
proof (induction scripts arbitrary: acc)
  case Nil
  show ?case by simp
next
  case (Cons s scripts)
  from Cons.prems have here: "pendingRedemptions bridge wpkh s = Inr (found s)"
    and nz: "requestedAt (found s) \<noteq> 0"
    and rest: "\<forall>s \<in> set scripts. pendingRedemptions bridge wpkh s = Inr (found s)
             \<and> requestedAt (found s) \<noteq> 0"
    by simp_all
  show ?case
    by (simp add: here nz andThen_def Cons.IH [OF rest])
qed

lemma fetchLoop_not_found:
  assumes "\<forall>s \<in> set before. pendingRedemptions bridge wpkh s = Inr (found s)
             \<and> requestedAt (found s) \<noteq> 0"
    and "pendingRedemptions bridge wpkh s = Inr p" and "requestedAt p = 0"
  shows "fetchLoop bridge wpkh (before @ s # after) acc = Inl NotFound"
  using assms(1)
proof (induction before arbitrary: acc)
  case Nil
  show ?case by (simp add: assms(2,3) andThen_def NotFound_def)
next
  case (Cons b before)
  from Cons.prems have here: "pendingRedemptions bridge wpkh b = Inr (found b)"
    and nz: "requestedAt (found b) \<noteq> 0"
    and rest: "\<forall>s \<in> set before. pendingRedemptions bridge wpkh s = Inr (found s)
             \<and> requestedAt (found s) \<noteq> 0"
    by simp_all
  show ?case
    by (simp add: here nz andThen_def Cons.IH [OF rest])
qed

lemma fetchRedemptionRequests_loop:
  "fetchRedemptionRequests bcoin bridge walletPrivateKey scripts
     = fetchLoop bridge
         (toStringHex (hash160 bcoin (getPublicKey bcoin (createKeyRing walletPrivateKey None))))
         scripts []"
  by (simp add: fetchRedemptionRequests_def Let_def bufferFromHex_toStringHex)

text \<open>
  Claim C6. When the lookup of an output script returns a record whose
  \<open>requestedAt\<close> is zero, \<open>fetchRedemptionRequests\<close> fails with \<open>NotFound\<close>
  (wherever the script stands in the list, the scripts before it being found); when
  \<open>requestedAt\<close> is not zero the request is returned.
\<close>

theorem fetchRedemptionRequests_zero_timestamp:
  fixes bcoin :: Bcoin and bridge :: Bridge and walletPrivateKey :: string
  defines "walletHash \<equiv>
    toStringHex (hash160 bcoin (getPublicKey bcoin (createKeyRing walletPrivateKey None)))"
  assumes "pendingRedemptions bridge walletHash outputScript = Inr pending"
    and "\<forall>s \<in> set before. pendingRedemptions bridge walletHash s = Inr (found s)
             \<and> requestedAt (found s) \<noteq> 0"
  shows "fetchRedemptionRequests bcoin bridge walletPrivateKey [outputScript]
           = (if requestedAt pending = 0 then Inl NotFound
              else Inr [pending\<lparr>redeemerOutputScript := outputScript\<rparr>])
         \<and> (requestedAt pending = 0 \<longrightarrow>
              fetchRedemptionRequests bcoin bridge walletPrivateKey
                (before @ outputScript # after) = Inl NotFound)"
proof -
  have single: "fetchRedemptionRequests bcoin bridge walletPrivateKey [outputScript]
           = (if requestedAt pending = 0 then Inl NotFound
              else Inr [pending\<lparr>redeemerOutputScript := outputScript\<rparr>])"
    using assms(2)
    by (simp add: fetchRedemptionRequests_loop walletHash_def andThen_def NotFound_def)
  have general: "fetchRedemptionRequests bcoin bridge walletPrivateKey
                (before @ outputScript # after) = Inl NotFound"
    if "requestedAt pending = 0"
    unfolding fetchRedemptionRequests_loop
    using assms(3,2) that unfolding walletHash_def by (rule fetchLoop_not_found)
  from single general show ?thesis by blast
qed

text \<open>
  Claim C9. When every lookup succeeds with a non-zero \<open>requestedAt\<close>,
  \<open>fetchRedemptionRequests\<close> returns as many requests as there are scripts, in the
  order of the scripts, each the record the Bridge returned with its
  \<open>redeemerOutputScript\<close> replaced by the input script.
\<close>

theorem fetchRedemptionRequests_in_order:
  fixes bcoin :: Bcoin and bridge :: Bridge and walletPrivateKey :: string
  defines "walletHash \<equiv>
    toStringHex (hash160 bcoin (getPublicKey bcoin (createKeyRing walletPrivateKey None)))"
  assumes "\<forall>s \<in> set scripts. pendingRedemptions bridge walletHash s = Inr (found s)
             \<and> requestedAt (found s) \<noteq> 0"
  shows "\<exists>requests.
           fetchRedemptionRequests bcoin bridge walletPrivateKey scripts = Inr requests
           \<and> length requests = length scripts
           \<and> map redeemerOutputScript requests = scripts
           \<and> requests = map (\<lambda>s. (found s)\<lparr>redeemerOutputScript := s\<rparr>) scripts"
proof -
  have "fetchRedemptionRequests bcoin bridge walletPrivateKey scripts
          = Inr (map (\<lambda>s. (found s)\<lparr>redeemerOutputScript := s\<rparr>) scripts)"
    unfolding fetchRedemptionRequests_loop
    using fetchLoop_all_found [OF assms(2) [unfolded walletHash_def], of "[]"] by simp
  moreover have "map redeemerOutputScript
      (map (\<lambda>s. (found s)\<lparr>redeemerOutputScript := s\<rparr>) scripts) = scripts"
    by (induction scripts) simp_all
  ultimately show ?thesis by simp
qed

theorem fetchRedemptionRequests_zero_timestamp_witness:
  "pendingRedemptions sampleLedger
      (toStringHex (hash160 sampleBcoin (getPublicKey sampleBcoin (createKeyRing ''key'' None))))
      ''0014cc''
     = Inr \<lparr>redeemer = ''a1'', redeemerOutputScript = ''ffff'', requestedAmount = 50000,
            treasuryFee = 100, txMaxFee = 400, requestedAt = 0\<rparr>
   \<and> pendingRedemptions sampleLedger
      (toStringHex (hash160 sampleBcoin (getPublicKey sampleBcoin (createKeyRing ''key'' None))))
      ''0014aa''
     = Inr \<lparr>redeemer = ''a1'', redeemerOutputScript = ''ffff'', requestedAmount = 50000,
            treasuryFee = 100, txMaxFee = 400, requestedAt = 1650000000\<rparr>
   \<and> fetchRedemptionRequests sampleBcoin sampleLedger ''key'' [''0014cc''] = Inl NotFound
   \<and> fetchRedemptionRequests sampleBcoin sampleLedger ''key''
        [''0014aa'', ''0014cc'', ''0014bb'']
       = Inl NotFound
   \<and> fetchRedemptionRequests sampleBcoin sampleLedger ''key'' [''0014aa'']
       = Inr [\<lparr>redeemer = ''a1'', redeemerOutputScript = ''0014aa'', requestedAmount = 50000,
            treasuryFee = 100, txMaxFee = 400, requestedAt = 1650000000\<rparr>]"
proof -
  let ?w = "(toStringHex (hash160 sampleBcoin (getPublicKey sampleBcoin (createKeyRing ''key'' None))))"
  have zero: "pendingRedemptions sampleLedger ?w ''0014cc''
      = Inr \<lparr>redeemer = ''a1'', redeemerOutputScript = ''ffff'', requestedAmount = 50000,
            treasuryFee = 100, txMaxFee = 400, requestedAt = 0\<rparr>"
    by (simp add: sampleLedger_def)
  have aa: "pendingRedemptions sampleLedger ?w ''0014aa''
      = Inr \<lparr>redeemer = ''a1'', redeemerOutputScript = ''ffff'', requestedAmount = 50000,
            treasuryFee = 100, txMaxFee = 400, requestedAt = 1650000000\<rparr>"
    by (simp add: sampleLedger_def)
  have before: "\<forall>s \<in> set [''0014aa''].
      pendingRedemptions sampleLedger ?w s
        = Inr ((\<lambda>s. \<lparr>redeemer = ''a1'', redeemerOutputScript = ''ffff'', requestedAmount = 50000,
            treasuryFee = 100, txMaxFee = 400, requestedAt = 1650000000\<rparr>) s)
      \<and> requestedAt ((\<lambda>s. \<lparr>redeemer = ''a1'', redeemerOutputScript = ''ffff'', requestedAmount = 50000,
            treasuryFee = 100, txMaxFee = 400, requestedAt = 1650000000\<rparr>) s) \<noteq> 0"
    by (simp add: sampleLedger_def)
  have none: "\<forall>s \<in> set [].
      pendingRedemptions sampleLedger ?w s
        = Inr ((\<lambda>s. \<lparr>redeemer = ''a1'', redeemerOutputScript = ''ffff'', requestedAmount = 50000,
            treasuryFee = 100, txMaxFee = 400, requestedAt = 1650000000\<rparr>) s)
      \<and> requestedAt ((\<lambda>s. \<lparr>redeemer = ''a1'', redeemerOutputScript = ''ffff'', requestedAmount = 50000,
            treasuryFee = 100, txMaxFee = 400, requestedAt = 1650000000\<rparr>) s) \<noteq> 0"
    by simp
  from fetchRedemptionRequests_zero_timestamp [OF zero before, of "[''0014bb'']"]
  have a: "fetchRedemptionRequests sampleBcoin sampleLedger ''key'' [''0014cc'']
      = Inl NotFound"
    and b: "fetchRedemptionRequests sampleBcoin sampleLedger ''key''
        [''0014aa'', ''0014cc'', ''0014bb'']
       = Inl NotFound"
    by simp_all
  from fetchRedemptionRequests_zero_timestamp [OF aa none, of "[]"]
  have c: "fetchRedemptionRequests sampleBcoin sampleLedger ''key'' [''0014aa'']
       = Inr [\<lparr>redeemer = ''a1'', redeemerOutputScript = ''0014aa'', requestedAmount = 50000,
            treasuryFee = 100, txMaxFee = 400, requestedAt = 1650000000\<rparr>]"
    by simp
  from zero aa a b c show ?thesis by blast
qed

theorem fetchRedemptionRequests_in_order_witness:
  "pendingRedemptions sampleLedger
      (toStringHex (hash160 sampleBcoin (getPublicKey sampleBcoin (createKeyRing ''key'' None))))
      ''0014aa''
     = Inr \<lparr>redeemer = ''a1'', redeemerOutputScript = ''ffff'', requestedAmount = 50000,
            treasuryFee = 100, txMaxFee = 400, requestedAt = 1650000000\<rparr>
   \<and> pendingRedemptions sampleLedger
      (toStringHex (hash160 sampleBcoin (getPublicKey sampleBcoin (createKeyRing ''key'' None))))
      ''0014bb''
     = Inr \<lparr>redeemer = ''a1'', redeemerOutputScript = ''ffff'', requestedAmount = 50000,
            treasuryFee = 100, txMaxFee = 400, requestedAt = 1650000000\<rparr>
   \<and> fetchRedemptionRequests sampleBcoin sampleLedger ''key''
        [''0014aa'', ''0014bb'', ''0014aa'']
       = Inr [\<lparr>redeemer = ''a1'', redeemerOutputScript = ''0014aa'', requestedAmount = 50000,
            treasuryFee = 100, txMaxFee = 400, requestedAt = 1650000000\<rparr>,
              \<lparr>redeemer = ''a1'', redeemerOutputScript = ''0014bb'', requestedAmount = 50000,
            treasuryFee = 100, txMaxFee = 400, requestedAt = 1650000000\<rparr>,
              \<lparr>redeemer = ''a1'', redeemerOutputScript = ''0014aa'', requestedAmount = 50000,
            treasuryFee = 100, txMaxFee = 400, requestedAt = 1650000000\<rparr>]"
proof -
  let ?w = "(toStringHex (hash160 sampleBcoin (getPublicKey sampleBcoin (createKeyRing ''key'' None))))"
  have aa: "pendingRedemptions sampleLedger ?w ''0014aa''
      = Inr \<lparr>redeemer = ''a1'', redeemerOutputScript = ''ffff'', requestedAmount = 50000,
            treasuryFee = 100, txMaxFee = 400, requestedAt = 1650000000\<rparr>"
    by (simp add: sampleLedger_def)
  have bb: "pendingRedemptions sampleLedger ?w ''0014bb''
      = Inr \<lparr>redeemer = ''a1'', redeemerOutputScript = ''ffff'', requestedAmount = 50000,
            treasuryFee = 100, txMaxFee = 400, requestedAt = 1650000000\<rparr>"
    by (simp add: sampleLedger_def)
  have every: "\<forall>s \<in> set [''0014aa'', ''0014bb'', ''0014aa''].
      pendingRedemptions sampleLedger ?w s
        = Inr ((\<lambda>s. \<lparr>redeemer = ''a1'', redeemerOutputScript = ''ffff'', requestedAmount = 50000,
            treasuryFee = 100, txMaxFee = 400, requestedAt = 1650000000\<rparr>) s)
      \<and> requestedAt ((\<lambda>s. \<lparr>redeemer = ''a1'', redeemerOutputScript = ''ffff'', requestedAmount = 50000,
            treasuryFee = 100, txMaxFee = 400, requestedAt = 1650000000\<rparr>) s) \<noteq> 0"
    by (simp add: sampleLedger_def)
  from fetchRedemptionRequests_in_order [OF every]
  have "fetchRedemptionRequests sampleBcoin sampleLedger ''key''
        [''0014aa'', ''0014bb'', ''0014aa'']
       = Inr [\<lparr>redeemer = ''a1'', redeemerOutputScript = ''0014aa'', requestedAmount = 50000,
            treasuryFee = 100, txMaxFee = 400, requestedAt = 1650000000\<rparr>,
              \<lparr>redeemer = ''a1'', redeemerOutputScript = ''0014bb'', requestedAmount = 50000,
            treasuryFee = 100, txMaxFee = 400, requestedAt = 1650000000\<rparr>,
              \<lparr>redeemer = ''a1'', redeemerOutputScript = ''0014aa'', requestedAmount = 50000,
            treasuryFee = 100, txMaxFee = 400, requestedAt = 1650000000\<rparr>]"
    by auto
  with aa bb show ?thesis by blast
qed

section \<open>Revealing a deposit\<close>

lemma string_includes_iff: "string_includes msg sub = (\<exists>p q. msg = p @ sub @ q)"
proof (induction msg)
  case Nil
  show ?case by auto
next
  case (Cons c cs)
  have "(take (length sub) (c # cs) = sub) = (\<exists>q. c # cs = sub @ q)"
    by (metis append_eq_conv_conj append_take_drop_id)
  moreover have "(\<exists>p q. c # cs = p @ sub @ q)
      = ((\<exists>q. c # cs = sub @ q) \<or> (\<exists>p q. cs = p @ sub @ q))"
  proof
    assume "\<exists>p q. c # cs = p @ sub @ q"
    then obtain p q where pq: "c # cs = p @ sub @ q" by blast
    show "(\<exists>q. c # cs = sub @ q) \<or> (\<exists>p q. cs = p @ sub @ q)"
    proof (cases p)
      case Nil
      with pq show ?thesis by auto
    next
      case (Cons x xs)
      with pq have "cs = xs @ sub @ q" by simp
      then show ?thesis by blast
    qed
  next
    assume "(\<exists>q. c # cs = sub @ q) \<or> (\<exists>p q. cs = p @ sub @ q)"
    then show "\<exists>p q. c # cs = p @ sub @ q"
    proof
      assume "\<exists>q. c # cs = sub @ q"
      then obtain q where "c # cs = [] @ sub @ q" by auto
      then show ?thesis by blast
    next
      assume "\<exists>p q. cs = p @ sub @ q"
      then obtain p q where "cs = p @ sub @ q" by blast
      then have "c # cs = (c # p) @ sub @ q" by simp
      then show ?thesis by blast
    qed
  qed
  ultimately show ?case using Cons.IH by simp
qed

lemma sendLoop_already_done:
  assumes "k \<le> remaining"
    and "\<forall>i < k. \<exists>e. fn (attempt + i) = Inl e \<and> \<not> isExpected expected e"
    and "fn (attempt + k) = Inl e" and "isExpected expected e"
  shows "sendLoop fn expected attempt remaining = (Inr AlreadyDone, attempt + k + 1)"
  using assms
proof (induction k arbitrary: attempt remaining)
  case 0
  then show ?case by (cases remaining) simp_all
next
  case (Suc k)
  from Suc.prems(1) obtain r where r: "remaining = Suc r" and kr: "k \<le> r"
    by (cases remaining) simp_all
  from Suc.prems(2) [rule_format, of 0] obtain e0
    where e0: "fn attempt = Inl e0" "\<not> isExpected expected e0" by auto
  have later: "\<forall>i < k. \<exists>e. fn (Suc attempt + i) = Inl e \<and> \<not> isExpected expected e"
    using Suc.prems(2) by (metis Suc_less_eq add_Suc_shift)
  have last: "fn (Suc attempt + k) = Inl e" using Suc.prems(3) by simp
  from Suc.IH [OF kr later last Suc.prems(4)] e0 r show ?case by simp
qed

lemma sendLoop_exhausted:
  assumes "\<forall>i \<le> remaining. fn (attempt + i) = Inl (failure (attempt + i))
             \<and> \<not> isExpected expected (failure (attempt + i))"
  shows "sendLoop fn expected attempt remaining
           = (Inl (failure (attempt + remaining)), attempt + remaining + 1)"
  using assms
proof (induction remaining arbitrary: attempt)
  case 0
  then show ?case by simp
next
  case (Suc remaining)
  from Suc.prems [rule_format, of 0]
  have e0: "fn attempt = Inl (failure attempt)" "\<not> isExpected expected (failure attempt)"
    by simp_all
  have later: "\<forall>i \<le> remaining. fn (Suc attempt + i) = Inl (failure (Suc attempt + i))
             \<and> \<not> isExpected expected (failure (Suc attempt + i))"
  proof (intro allI impI)
    fix i assume "i \<le> remaining"
    then have "Suc i \<le> Suc remaining" by simp
    from Suc.prems [rule_format, OF this] show "fn (Suc attempt + i) = Inl (failure (Suc attempt + i))
             \<and> \<not> isExpected expected (failure (Suc attempt + i))" by simp
  qed
  from Suc.IH [OF later] e0 show ?case by simp
qed

lemma isExpected_single: "isExpected [sub] (Error msg) = string_includes msg sub"
  by (simp add: isExpected_def)

lemma revealDeposit_sendLoop:
  "revealDeposit bridge depositTx depositOutputIndex deposit vaultId
     = (case sendLoop
               (instance_revealDeposit bridge
                  \<lparr>DepositTxParam.version = ''0x'' @ BitcoinRawTxVectors.version depositTx,
            inputVector = ''0x'' @ inputs depositTx,
            outputVector = ''0x'' @ outputs depositTx,
            DepositTxParam.locktime = ''0x'' @ BitcoinRawTxVectors.locktime depositTx\<rparr>
           \<lparr>fundingOutputIndex = depositOutputIndex,
            RevealParam.blindingFactor = ''0x'' @ DepositReceipt.blindingFactor deposit,
            walletPubKeyHash = ''0x'' @ walletPublicKeyHash deposit,
            refundPubKeyHash = ''0x'' @ refundPublicKeyHash deposit,
            RevealParam.refundLocktime = ''0x'' @ DepositReceipt.refundLocktime deposit,
            vault = (case vaultId of
                       Some v \<Rightarrow> ''0x'' @ identifierHex v
                     | None \<Rightarrow> AddressZero)\<rparr>)
               [''Deposit already revealed''] 0 (totalRetryAttempts bridge - 1) of
          (Inl e, n) \<Rightarrow> (Inl e, n)
        | (Inr (Completed tx), n) \<Rightarrow> (Inr (hash tx), n)
        | (Inr AlreadyDone, n) \<Rightarrow> (Inl TypeError, n))"
  by (simp add: revealDeposit_def sendWithRetry_def Let_def
      split: prod.splits sum.splits completion.splits)

text \<open>
  Claim C5, with the expected message as \<open>revealDeposit\<close> enumerates it, on the
  retry wrapper as the specification describes it. When the contract call fails with a
  message that contains \<open>Deposit already revealed\<close> (after any number of other
  failures, within the retry limit), the contract is not called again. When every
  attempt fails with a message that does not contain it, \<open>revealDeposit\<close> makes all
  the attempts of its limit and fails with the message of the last one, unchanged.
\<close>

theorem revealDeposit_not_retried_or_exhausted:
  fixes bridge :: "'ws EthereumBridge" and depositTx :: BitcoinRawTxVectors
    and depositOutputIndex :: nat and deposit :: DepositReceipt
    and vaultId :: "ChainIdentifier option"
  defines "call \<equiv>
    instance_revealDeposit bridge
      \<lparr>DepositTxParam.version = ''0x'' @ BitcoinRawTxVectors.version depositTx,
            inputVector = ''0x'' @ inputs depositTx,
            outputVector = ''0x'' @ outputs depositTx,
            DepositTxParam.locktime = ''0x'' @ BitcoinRawTxVectors.locktime depositTx\<rparr>
           \<lparr>fundingOutputIndex = depositOutputIndex,
            RevealParam.blindingFactor = ''0x'' @ DepositReceipt.blindingFactor deposit,
            walletPubKeyHash = ''0x'' @ walletPublicKeyHash deposit,
            refundPubKeyHash = ''0x'' @ refundPublicKeyHash deposit,
            RevealParam.refundLocktime = ''0x'' @ DepositReceipt.refundLocktime deposit,
            vault = (case vaultId of
                       Some v \<Rightarrow> ''0x'' @ identifierHex v
                     | None \<Rightarrow> AddressZero)\<rparr>"
  shows "(k < totalRetryAttempts bridge \<longrightarrow>
          (\<forall>i < k. \<exists>m. call i = Inl (Error m)
                         \<and> \<not> string_includes m ''Deposit already revealed'') \<longrightarrow>
          call k = Inl (Error msg) \<longrightarrow>
          string_includes msg ''Deposit already revealed'' \<longrightarrow>
          snd (revealDeposit bridge depositTx depositOutputIndex deposit vaultId) = k + 1)
       \<and> (0 < totalRetryAttempts bridge \<longrightarrow>
          (\<forall>i < totalRetryAttempts bridge.
              call i = Inl (Error (failure i))
              \<and> \<not> string_includes (failure i) ''Deposit already revealed'') \<longrightarrow>
          revealDeposit bridge depositTx depositOutputIndex deposit vaultId
            = (Inl (Error (failure (totalRetryAttempts bridge - 1))),
               totalRetryAttempts bridge))"
proof (intro conjI impI)
  assume k: "k < totalRetryAttempts bridge"
    and early: "\<forall>i < k. \<exists>m. call i = Inl (Error m)
                         \<and> \<not> string_includes m ''Deposit already revealed''"
    and at_k: "call k = Inl (Error msg)"
    and expected: "string_includes msg ''Deposit already revealed''"
  from k have le: "k \<le> totalRetryAttempts bridge - 1" by simp
  from early
  have early': "\<forall>i < k. \<exists>e. call (0 + i) = Inl e
                  \<and> \<not> isExpected [''Deposit already revealed''] e"
    by (metis isExpected_single add_0)
  from at_k have at_k': "call (0 + k) = Inl (Error msg)" by simp
  from expected have expected': "isExpected [''Deposit already revealed''] (Error msg)"
    by (simp only: isExpected_single)
  have "sendLoop call [''Deposit already revealed''] 0 (totalRetryAttempts bridge - 1)
          = (Inr AlreadyDone, 0 + k + 1)"
    using le early' at_k' expected' by (rule sendLoop_already_done)
  then show "snd (revealDeposit bridge depositTx depositOutputIndex deposit vaultId) = k + 1"
    by (simp add: revealDeposit_sendLoop call_def)
next
  assume pos: "0 < totalRetryAttempts bridge"
    and every: "\<forall>i < totalRetryAttempts bridge.
              call i = Inl (Error (failure i))
              \<and> \<not> string_includes (failure i) ''Deposit already revealed''"
  have every': "\<forall>i \<le> totalRetryAttempts bridge - 1.
      call (0 + i) = Inl ((\<lambda>i. Error (failure i)) (0 + i))
      \<and> \<not> isExpected [''Deposit already revealed''] ((\<lambda>i. Error (failure i)) (0 + i))"
  proof (intro allI impI)
    fix i assume "i \<le> totalRetryAttempts bridge - 1"
    with pos have "i < totalRetryAttempts bridge" by simp
    with every show "call (0 + i) = Inl ((\<lambda>i. Error (failure i)) (0 + i))
      \<and> \<not> isExpected [''Deposit already revealed''] ((\<lambda>i. Error (failure i)) (0 + i))"
      by (simp add: isExpected_single)
  qed
  have "sendLoop call [''Deposit already revealed''] 0 (totalRetryAttempts bridge - 1)
          = (Inl ((\<lambda>i. Error (failure i)) (0 + (totalRetryAttempts bridge - 1))),
             0 + (totalRetryAttempts bridge - 1) + 1)"
    using every' by (rule sendLoop_exhausted)
  with pos show "revealDeposit bridge depositTx depositOutputIndex deposit vaultId
            = (Inl (Error (failure (totalRetryAttempts bridge - 1))),
               totalRetryAttempts bridge)"
    by (simp add: revealDeposit_sendLoop call_def)
qed

theorem revealDeposit_not_retried_or_exhausted_witness:
  "snd (revealDeposit
       (sampleBridge
          (\<lambda>attempt. if attempt = 0 then Inl (Error ''network error'')
             else Inl (Error ''execution reverted: Deposit already revealed''))
          (\<lambda>attempt. Inr AddressZero))
       sampleRawTx 0 sampleReceipt None)
     = 2
   \<and> revealDeposit
       (sampleBridge (\<lambda>attempt. Inl (Error ''timeout'')) (\<lambda>attempt. Inr AddressZero))
       sampleRawTx 0 sampleReceipt None
     = (Inl (Error ''timeout''), 3)"
proof -
  have a: "snd (revealDeposit
       (sampleBridge
          (\<lambda>attempt. if attempt = 0 then Inl (Error ''network error'')
             else Inl (Error ''execution reverted: Deposit already revealed''))
          (\<lambda>attempt. Inr AddressZero))
       sampleRawTx 0 sampleReceipt None)
     = 1 + 1"
    by (rule revealDeposit_not_retried_or_exhausted [THEN conjunct1, rule_format,
          where msg = "''execution reverted: Deposit already revealed''"])
       (simp_all add: sampleBridge_def)
  have b: "revealDeposit
       (sampleBridge (\<lambda>attempt. Inl (Error ''timeout'')) (\<lambda>attempt. Inr AddressZero))
       sampleRawTx 0 sampleReceipt None
     = (Inl (Error ((\<lambda>i. ''timeout'')
          (totalRetryAttempts
             (sampleBridge (\<lambda>attempt. Inl (Error ''timeout''))
                (\<lambda>attempt. Inr AddressZero)) - 1))),
        totalRetryAttempts
          (sampleBridge (\<lambda>attempt. Inl (Error ''timeout''))
             (\<lambda>attempt. Inr AddressZero)))"
    by (rule revealDeposit_not_retried_or_exhausted [THEN conjunct2, rule_format])
       (simp_all add: sampleBridge_def)
  from a b show ?thesis by (simp add: sampleBridge_def)
qed

text \<open>
  A call that always fails with \<open>Deposit already revealed\<close> is made once and does
  not end as a success: there is no transaction to read the hash of. A message that
  contains \<open>already revealed\<close> but not \<open>Deposit already revealed\<close> is not among
  the expected ones: the call is retried and the error surfaces.
\<close>

theorem revealDeposit_already_revealed_counterexample:
  "string_includes ''Deposit already revealed'' ''already revealed''
   \<and> revealDeposit
       (sampleBridge (\<lambda>attempt. Inl (Error ''Deposit already revealed''))
          (\<lambda>attempt. Inr AddressZero))
       sampleRawTx 0 sampleReceipt None
     = (Inl TypeError, 1)
   \<and> string_includes ''already revealed'' ''already revealed''
   \<and> revealDeposit
       (sampleBridge (\<lambda>attempt. Inl (Error ''already revealed''))
          (\<lambda>attempt. Inr AddressZero))
       sampleRawTx 0 sampleReceipt None
     = (Inl (Error ''already revealed''), 3)"
  by (simp add: revealDeposit_def sendWithRetry_def isExpected_def numeral_2_eq_2 Let_def
      sampleBridge_def)

section \<open>The active wallet\<close>

lemma hexDigit_numerals:
  "hexDigit 0 = CHR ''0''" "hexDigit 1 = CHR ''1''" "hexDigit 2 = CHR ''2''"
  "hexDigit 3 = CHR ''3''" "hexDigit 4 = CHR ''4''" "hexDigit 5 = CHR ''5''"
  "hexDigit 6 = CHR ''6''" "hexDigit 7 = CHR ''7''" "hexDigit 8 = CHR ''8''"
  "hexDigit 9 = CHR ''9''" "hexDigit 10 = CHR ''a''" "hexDigit 11 = CHR ''b''"
  "hexDigit 12 = CHR ''c''" "hexDigit 13 = CHR ''d''" "hexDigit 14 = CHR ''e''"
  "hexDigit 15 = CHR ''f''" "hexDigit (Suc 0) = CHR ''1''"
  by (simp_all add: hexDigit_def char_of_def bit_iff_odd_drop_bit drop_bit_eq_div)

lemma hexlify_zero_address:
  "hexlify (replicate 20 0) = ''0x0000000000000000000000000000000000000000''"
proof -
  have "replicate 20 (0::byte) = [0, 0, 0, 0, 0, 0, 0, 0, 0, 0, 0, 0, 0, 0, 0, 0, 0, 0, 0, 0]"
    by (simp add: numeral_eq_Suc)
  then show ?thesis
    by (simp add: hexlify_def toStringHex_def byteToHex_def hexDigit_numerals)
qed

lemma hexlify_inject: "(hexlify a = hexlify b) = (a = b)"
proof
  assume "hexlify a = hexlify b"
  then have "toStringHex a = toStringHex b" by (simp add: hexlify_def)
  then have "bufferFromHex (toStringHex a) = bufferFromHex (toStringHex b)" by simp
  then show "a = b" by (simp only: bufferFromHex_toStringHex)
next
  assume "a = b"
  then show "hexlify a = hexlify b" by simp
qed

lemma not_isHexChar_x: "\<not> isHexChar CHR ''x''" "\<not> isHexChar CHR ''X''"
  by (simp_all add: isHexChar_def hexValue_def)

lemma toStringHex_no_prefix:
  "take 2 (toStringHex bs) \<noteq> ''0x''" "take 2 (toStringHex bs) \<noteq> ''0X''"
proof -
  have all: "list_all isHexChar (toStringHex bs)" by (rule list_all_isHexChar_toStringHex)
  show "take 2 (toStringHex bs) \<noteq> ''0x''"
  proof
    assume "take 2 (toStringHex bs) = ''0x''"
    then have "CHR ''x'' \<in> set (take 2 (toStringHex bs))" by simp
    then have "CHR ''x'' \<in> set (toStringHex bs)" by (rule in_set_takeD)
    with all show False by (auto simp: list_all_iff not_isHexChar_x)
  qed
  show "take 2 (toStringHex bs) \<noteq> ''0X''"
  proof
    assume "take 2 (toStringHex bs) = ''0X''"
    then have "CHR ''X'' \<in> set (take 2 (toStringHex bs))" by simp
    then have "CHR ''X'' \<in> set (toStringHex bs)" by (rule in_set_takeD)
    with all show False by (auto simp: list_all_iff not_isHexChar_x)
  qed
qed

lemma Hex_roundtrip: "Hex_toString (Hex_from (toStringHex bs)) = toStringHex bs"
  by (simp add: Hex_toString_def Hex_from_def toStringHex_no_prefix bufferFromHex_toStringHex)

lemma activeWalletPublicKey_cases:
  "activeWalletPublicKey bridge
     = (case backoffRetrier (totalRetryAttempts bridge) (instance_activeWalletPubKeyHash bridge) of
          Inl e \<Rightarrow> Inl e
        | Inr h \<Rightarrow>
            if h = ''0x0000000000000000000000000000000000000000'' then Inr None
            else (case wallets bridge (Hex_from h) of
                    Inl e \<Rightarrow> Inl e
                  | Inr w \<Rightarrow> Inr (Some (Hex_toString (walletPublicKey w)))))"
  by (simp add: activeWalletPublicKey_def andThen_def split: sum.splits)

lemma wallets_resolved:
  assumes "backoffRetrier (totalRetryAttempts bridge)
             (instance_wallets bridge (Hex_toPrefixedString h)) = Inr w"
    and "backoffRetrier (totalRetryAttempts bridge) (instance_contractReferences bridge)
           = Inr registry"
    and "registry_getWalletPublicKey bridge registry
           (Hex_from (WalletStructOutput.ecdsaWalletID w)) = Inr uncompressed"
    and "compressPublicKey bridge uncompressed = Inr compressed"
    and "WalletState_parse bridge (WalletStructOutput.state w) = Inr parsed"
  shows "\<exists>wallet. wallets bridge h = Inr wallet
           \<and> walletPublicKey wallet = Hex_from compressed"
  using assms
  by (simp add: wallets_def parseWalletDetails_def getWalletCompressedPublicKey_def
      walletRegistry_def andThen_def Let_def)

text \<open>
  Claim C10. \<open>activeWalletPublicKey\<close> returns \<open>undefined\<close> exactly when the
  (retried) call for the active wallet public key hash returns the all-zero 20-byte
  address; a failure of that call is passed on; for any other hash the result is that
  of resolving the wallet, never \<open>undefined\<close>, and when the wallet, the registry,
  the wallet's public key and its compression are obtained, the compressed public key
  is returned.
\<close>

theorem activeWalletPublicKey_undefined_iff_zero_hash:
  fixes bridge :: "'ws EthereumBridge"
  defines "retries \<equiv> totalRetryAttempts bridge"
    and "activeHash \<equiv>
      backoffRetrier (totalRetryAttempts bridge) (instance_activeWalletPubKeyHash bridge)"
  shows "(activeWalletPublicKey bridge = Inr None)
           = (activeHash = Inr (hexlify (replicate 20 0)))
       \<and> hexlify (replicate 20 0) = ''0x0000000000000000000000000000000000000000''
       \<and> (hexlify bs = hexlify (replicate 20 0)) = (bs = replicate 20 0)
       \<and> (activeHash = Inl e \<longrightarrow> activeWalletPublicKey bridge = Inl e)
       \<and> (activeHash = Inr h \<longrightarrow> h \<noteq> hexlify (replicate 20 0) \<longrightarrow>
            activeWalletPublicKey bridge
              = andThen (wallets bridge (Hex_from h))
                  (\<lambda>wallet. Inr (Some (Hex_toString (walletPublicKey wallet)))))
       \<and> (activeHash = Inr h \<longrightarrow> h \<noteq> hexlify (replicate 20 0) \<longrightarrow>
            backoffRetrier retries
              (instance_wallets bridge (Hex_toPrefixedString (Hex_from h))) = Inr w \<longrightarrow>
            backoffRetrier retries (instance_contractReferences bridge) = Inr registry \<longrightarrow>
            registry_getWalletPublicKey bridge registry
              (Hex_from (WalletStructOutput.ecdsaWalletID w)) = Inr uncompressed \<longrightarrow>
            compressPublicKey bridge uncompressed = Inr (toStringHex compressed) \<longrightarrow>
            WalletState_parse bridge (WalletStructOutput.state w) = Inr parsed \<longrightarrow>
            activeWalletPublicKey bridge = Inr (Some (toStringHex compressed)))"
proof (intro conjI impI)
  show "(activeWalletPublicKey bridge = Inr None)
           = (activeHash = Inr (hexlify (replicate 20 0)))"
    unfolding activeWalletPublicKey_cases activeHash_def hexlify_zero_address
    by (simp split: sum.splits)
  show "hexlify (replicate 20 0) = ''0x0000000000000000000000000000000000000000''"
    by (rule hexlify_zero_address)
  show "(hexlify bs = hexlify (replicate 20 0)) = (bs = replicate 20 0)"
    by (rule hexlify_inject)
next
  assume "activeHash = Inl e"
  then show "activeWalletPublicKey bridge = Inl e"
    unfolding activeWalletPublicKey_cases activeHash_def by simp
next
  assume "activeHash = Inr h" and "h \<noteq> hexlify (replicate 20 0)"
  then show "activeWalletPublicKey bridge
              = andThen (wallets bridge (Hex_from h))
                  (\<lambda>wallet. Inr (Some (Hex_toString (walletPublicKey wallet))))"
    unfolding activeWalletPublicKey_def activeHash_def hexlify_zero_address
    by (simp add: andThen_def)
next
  assume active: "activeHash = Inr h" and nonzero: "h \<noteq> hexlify (replicate 20 0)"
    and w: "backoffRetrier retries
              (instance_wallets bridge (Hex_toPrefixedString (Hex_from h))) = Inr w"
    and reg: "backoffRetrier retries (instance_contractReferences bridge) = Inr registry"
    and key: "registry_getWalletPublicKey bridge registry
              (Hex_from (WalletStructOutput.ecdsaWalletID w)) = Inr uncompressed"
    and compressed: "compressPublicKey bridge uncompressed = Inr (toStringHex compressed)"
    and parsed: "WalletState_parse bridge (WalletStructOutput.state w) = Inr parsed"
  from wallets_resolved [OF w [unfolded retries_def] reg [unfolded retries_def] key
      compressed parsed]
  obtain wallet where wallet: "wallets bridge (Hex_from h) = Inr wallet"
    and pk: "walletPublicKey wallet = Hex_from (toStringHex compressed)"
    by blast
  from active nonzero wallet pk
  show "activeWalletPublicKey bridge = Inr (Some (toStringHex compressed))"
    unfolding activeWalletPublicKey_cases activeHash_def hexlify_zero_address
    by (simp add: Hex_roundtrip)
qed

theorem activeWalletPublicKey_witness:
  "activeWalletPublicKey
     (sampleBridge (\<lambda>attempt. Inl (Error ''unused''))
        (\<lambda>attempt. Inr ''0x0000000000000000000000000000000000000000''))
     = Inr None
   \<and> activeWalletPublicKey
     (sampleBridge (\<lambda>attempt. Inl (Error ''unused''))
        (\<lambda>attempt. if attempt = 0 then Inl (Error ''network error'')
           else Inr ''0x8db50eb52063ea9d98b3eac91489a90f738986f6''))
     = Inr (Some ''024ad6'')"
proof -
  let ?none = "(sampleBridge (\<lambda>attempt. Inl (Error ''unused''))
        (\<lambda>attempt. Inr ''0x0000000000000000000000000000000000000000''))"
  let ?live = "(sampleBridge (\<lambda>attempt. Inl (Error ''unused''))
        (\<lambda>attempt. if attempt = 0 then Inl (Error ''network error'')
           else Inr ''0x8db50eb52063ea9d98b3eac91489a90f738986f6''))"
  have zero: "backoffRetrier (totalRetryAttempts ?none) (instance_activeWalletPubKeyHash ?none)
      = Inr (hexlify (replicate 20 0))"
    unfolding hexlify_zero_address
    by (simp add: backoffRetrier_def numeral_2_eq_2 sampleBridge_def)
  from activeWalletPublicKey_undefined_iff_zero_hash [THEN conjunct1, of ?none] zero
  have a: "activeWalletPublicKey ?none = Inr None" by blast
  have active: "backoffRetrier (totalRetryAttempts ?live) (instance_activeWalletPubKeyHash ?live)
      = Inr ''0x8db50eb52063ea9d98b3eac91489a90f738986f6''"
    by (simp add: backoffRetrier_def numeral_2_eq_2 sampleBridge_def)
  have nonzero: "''0x8db50eb52063ea9d98b3eac91489a90f738986f6'' \<noteq> hexlify (replicate 20 0)"
    by (simp add: hexlify_zero_address)
  have h: "Hex_toPrefixedString (Hex_from ''0x8db50eb52063ea9d98b3eac91489a90f738986f6'')
             = ''0x8db50eb52063ea9d98b3eac91489a90f738986f6''"
    by (simp add: Hex_toPrefixedString_def Hex_from_def hexValue_def toStringHex_def
        byteToHex_def hexDigit_numerals)
  have b: "activeWalletPublicKey ?live = Inr (Some (toStringHex [2, 74, 214]))"
  proof (rule activeWalletPublicKey_undefined_iff_zero_hash
      [THEN conjunct2, THEN conjunct2, THEN conjunct2, THEN conjunct2, THEN conjunct2,
       rule_format, OF active nonzero])
    show "backoffRetrier (totalRetryAttempts ?live)
            (instance_wallets ?live
               (Hex_toPrefixedString (Hex_from ''0x8db50eb52063ea9d98b3eac91489a90f738986f6'')))
          = Inr sampleWallet"
      unfolding h by (simp add: backoffRetrier_def numeral_2_eq_2 sampleBridge_def)
    show "backoffRetrier (totalRetryAttempts ?live) (instance_contractReferences ?live)
          = Inr ''0xregistry''"
      by (simp add: backoffRetrier_def numeral_2_eq_2 sampleBridge_def)
    show "registry_getWalletPublicKey ?live ''0xregistry''
            (Hex_from (WalletStructOutput.ecdsaWalletID sampleWallet))
          = Inr (4 # Hex_from (WalletStructOutput.ecdsaWalletID sampleWallet))"
      by (simp add: sampleBridge_def)
    show "compressPublicKey ?live
            (4 # Hex_from (WalletStructOutput.ecdsaWalletID sampleWallet))
          = Inr (toStringHex [2, 74, 214])"
      by (simp add: sampleBridge_def sampleWallet_def Hex_from_def hexValue_def)
    show "WalletState_parse ?live (WalletStructOutput.state sampleWallet) = Inr 1"
      by (simp add: sampleBridge_def sampleWallet_def)
  qed
  have "toStringHex [2, 74, 214] = ''024ad6''"
    by (simp add: toStringHex_def byteToHex_def hexDigit_numerals)
  with a b show ?thesis by simp
qed

end
